theory Spec2Isabelle
  imports Main "HOL-Library.Word"
begin

unbundle bit_operations_syntax

section \<open>The daemon h\_slcand as a function of its command line and of the system\<close>

text \<open>
  The program is the single function \<open>main\<close> of \<open>h_slcand.c\<close> together with the
  signal handler \<open>child_handler\<close>. Everything \<open>main\<close> does goes through system
  calls, most of them on the serial device, so the model threads a \<open>world\<close>
  through the calls: the line configuration the device holds, the list of calls
  issued so far, the signals that have a handler, and the two static variables
  the handler writes. Which calls fail, what the device held when the program
  started and which signals arrive while the program waits are given by an
  \<open>env\<close>. Every \<open>exit\<close> of the source is a branch that ends the run with its
  status. Messages to the log, to \<open>stdout\<close> and to \<open>stderr\<close> are left out: no call
  of \<open>main\<close> reads them back.
\<close>

subsection \<open>Constants of the headers\<close>

text \<open>\<open>stdlib.h\<close>.\<close>

definition EXIT_SUCCESS :: int where "EXIT_SUCCESS = 0"
definition EXIT_FAILURE :: int where "EXIT_FAILURE = 1"

text \<open>Signal numbers of \<open>asm-generic/signal.h\<close>.\<close>

definition SIGINT :: int where "SIGINT = 2"
definition SIGUSR1 :: int where "SIGUSR1 = 10"
definition SIGALRM :: int where "SIGALRM = 14"
definition SIGTERM :: int where "SIGTERM = 15"
definition SIGCHLD :: int where "SIGCHLD = 17"
definition SIGCONT :: int where "SIGCONT = 18"
definition SIGSTOP :: int where "SIGSTOP = 19"
definition SIGTSTP :: int where "SIGTSTP = 20"
definition SIGTTIN :: int where "SIGTTIN = 21"
definition SIGTTOU :: int where "SIGTTOU = 22"
definition SIGURG :: int where "SIGURG = 23"
definition SIGWINCH :: int where "SIGWINCH = 28"

text \<open>
  Flag bits of \<open>asm-generic/termbits.h\<close> (given there in octal): \<open>IXON = 0002000\<close>,
  \<open>IXOFF = 0010000\<close>, \<open>CBAUD = 0010017\<close>, \<open>BOTHER = 0010000\<close>,
  \<open>CRTSCTS = 020000000000\<close>. \<open>tcflag_t\<close> and \<open>speed_t\<close> are \<open>unsigned int\<close>.
\<close>

definition IXON :: "32 word" where "IXON = 0x400"
definition IXOFF :: "32 word" where "IXOFF = 0x1000"
definition CBAUD :: "32 word" where "CBAUD = 0x100F"
definition BOTHER :: "32 word" where "BOTHER = 0x1000"
definition CRTSCTS :: "32 word" where "CRTSCTS = 0x80000000"

text \<open>Line disciplines of \<open>linux/tty.h\<close>, and the name length of \<open>net/if.h\<close>.\<close>

definition N_TTY :: int where "N_TTY = 0"
definition N_SLCAN :: int where "N_SLCAN = 17"
definition IFNAMSIZ :: nat where "IFNAMSIZ = 16"

text \<open>The macros of the source itself.\<close>

definition TTYPATH_LENGTH :: nat where "TTYPATH_LENGTH = 256"
definition FLOW_NONE :: int where "FLOW_NONE = 0"
definition FLOW_HW :: int where "FLOW_HW = 1"
definition FLOW_SW :: int where "FLOW_SW = 2"
definition devprefix :: string where "devprefix = ''/dev/''"

text \<open>The carriage return that ends every adapter command.\<close>

definition CR :: char where "CR = CHR 0x0D"

subsection \<open>Data\<close>

text \<open>\<open>struct termios2\<close>.\<close>

record termios2 =
  c_iflag :: "32 word"
  c_oflag :: "32 word"
  c_cflag :: "32 word"
  c_lflag :: "32 word"
  c_line :: "8 word"
  c_cc :: "8 word list"
  c_ispeed :: "32 word"
  c_ospeed :: "32 word"

text \<open>
  What \<open>getopt\<close> hands to the \<open>switch\<close> of \<open>main\<close>, one value per turn of the
  option loop: the option character with its argument. \<open>Opt_unknown\<close> is the \<open>'?'\<close>
  that \<open>getopt\<close> returns for a character outside the option string or for a
  missing argument. The strings are the characters of a C string before its
  terminator.
\<close>

datatype opt =
    Opt_o | Opt_c | Opt_f | Opt_l
  | Opt_s string | Opt_S string | Opt_t string | Opt_b string
  | Opt_F | Opt_h | Opt_unknown

text \<open>The command line after \<open>getopt\<close>: the options in order, then \<open>argv[optind..]\<close>.\<close>

record cmdline =
  options :: "opt list"
  operands :: "string list"

text \<open>
  The local variables of \<open>main\<close> that the option loop sets. A \<open>char *\<close> that may be
  \<open>NULL\<close> is an option value; the flags are the \<open>int\<close>s 0 and 1.
\<close>

record opts =
  send_open :: bool
  send_close :: bool
  send_listen :: bool
  send_read_status_flags :: bool
  speed :: "string option"
  uart_speed :: "32 word"
  flow_type :: int
  btr :: "string option"
  run_as_daemon :: bool

definition initial_opts :: opts where
  "initial_opts =
     \<lparr>send_open = False, send_close = False, send_listen = False,
      send_read_status_flags = False, speed = None, uart_speed = 0,
      flow_type = FLOW_NONE, btr = None, run_as_daemon = True\<rparr>"

text \<open>
  The places of \<open>main\<close> where a system call can fail, in source order (lines 219,
  228, 235, 243, 249, 271, 279, 287, 295, 303, 309, 316, 322, 331, 340, 353, 371,
  378 and 385). Each is reached at most once in a run. A failure of the two
  latency calls (lines 243 and 249) is only reported, so the run does not depend
  on it.
\<close>

datatype site =
    At_open | At_tcgets2_tios | At_tcgets2_old | At_tiocgserial | At_tiocsserial
  | At_tcsets2_new | At_write_speed | At_write_btr | At_write_flags
  | At_write_listen | At_write_open | At_tiocsetd_slcan | At_siocgifname
  | At_socket | At_siocsifname | At_daemon | At_tiocsetd_tty | At_write_close
  | At_tcsets2_old

text \<open>
  The calls a run issues. \<open>Write\<close> carries the buffer handed to \<open>write\<close>,
  \<open>Tcsets2\<close> the configuration handed to the device, \<open>Tiocsetd\<close> the line
  discipline, \<open>Siocsifname\<close> the old and the new interface name, \<open>Signal\<close> the
  signal for which \<open>child_handler\<close> is installed.
\<close>

datatype action =
    Open string
  | Tcgets2
  | Tiocgserial
  | Tiocsserial
  | Tcsets2 termios2
  | Write string
  | Tiocsetd int
  | Siocgifname
  | Socket
  | Siocsifname string string
  | Close_socket
  | Close_fd
  | Daemon
  | Signal int

text \<open>What the kernel does with a signal that has no handler.\<close>

datatype disposition = Terminate | Ignore

text \<open>
  The system around one run. \<open>signals\<close> are the signals delivered to the process
  while it is in the wait loop, in order; after the last of them none arrives. A
  signal that arrives before the loop is entered or after it has ended is outside
  the model: the loop leaves the rest of the list unread once the flag is clear.
  \<open>daemon\<close> forks: the run modelled is the one of the process that goes on.
\<close>

record env =
  fails :: "site \<Rightarrow> bool"
  line_config :: termios2
  ifr_name :: string
  sig_default :: "int \<Rightarrow> disposition"
  signals :: "int list"

record world =
  tty_tios :: termios2
  trace :: "action list"
  trapped :: "int set"
  slcand_running :: int
  exit_code :: int

definition initial_world :: "env \<Rightarrow> world" where
  "initial_world e =
     \<lparr>tty_tios = line_config e, trace = [], trapped = {}, slcand_running = 0,
      exit_code = 0\<rparr>"

text \<open>
  How a run ends: \<open>exit(n)\<close>, \<open>return n\<close> from \<open>main\<close>, death by a signal without
  handler, or never (the wait loop goes on sleeping).
\<close>

datatype outcome = Exit int | Return int | Killed int | Never

definition andthen :: "('e + 'a) \<Rightarrow> ('a \<Rightarrow> 'e + 'b) \<Rightarrow> 'e + 'b" where
  "andthen r f = (case r of Inl x \<Rightarrow> Inl x | Inr a \<Rightarrow> f a)"

definition issue :: "action \<Rightarrow> world \<Rightarrow> world" where
  "issue a w = w\<lparr>trace := trace w @ [a]\<rparr>"

subsection \<open>The C library\<close>

text \<open>
  \<open>strtol(s, NULL, 10)\<close> after the C standard, for a \<open>long\<close> of 64 bits (the LP64
  model of 64-bit Linux): white space is skipped, a sign is read, then the longest
  run of decimal digits; a value outside \<open>long\<close> is clamped and \<open>errno\<close> is set
  (the second component). With no digit the value is 0 and \<open>errno\<close> stays 0.
\<close>

definition LONG_MAX :: int where "LONG_MAX = 2 ^ 63 - 1"
definition LONG_MIN :: int where "LONG_MIN = - (2 ^ 63)"

definition isspace :: "char \<Rightarrow> bool" where
  "isspace c = (c = CHR '' '' \<or> c = CHR 0x09 \<or> c = CHR 0x0A \<or> c = CHR 0x0B
     \<or> c = CHR 0x0C \<or> c = CHR 0x0D)"

definition isdigit :: "char \<Rightarrow> bool" where
  "isdigit c = (48 \<le> (of_char c :: nat) \<and> (of_char c :: nat) \<le> 57)"

definition digit_value :: "char \<Rightarrow> int" where
  "digit_value c = int (of_char c) - 48"

definition strtol :: "string \<Rightarrow> int \<times> bool" where
  "strtol s =
     (let s1 = dropWhile isspace s;
          neg = (case s1 of [] \<Rightarrow> False | c # _ \<Rightarrow> c = CHR ''-'');
          s2 = (case s1 of [] \<Rightarrow> []
                | c # r \<Rightarrow> if c = CHR ''-'' \<or> c = CHR ''+'' then r else s1);
          n = foldl (\<lambda>a c. 10 * a + digit_value c) 0 (takeWhile isdigit s2);
          v = (if neg then - n else n)
      in if LONG_MAX < v then (LONG_MAX, True)
         else if v < LONG_MIN then (LONG_MIN, True)
         else (v, False))"

text \<open>\<open>strstr\<close>: the offset of the first occurrence, \<open>None\<close> for \<open>NULL\<close>.\<close>

fun strstr :: "string \<Rightarrow> string \<Rightarrow> nat option" where
  "strstr [] needle = (if needle = [] then Some 0 else None)"
| "strstr (c # cs) needle =
     (if take (length needle) (c # cs) = needle then Some 0
      else map_option Suc (strstr cs needle))"

subsection \<open>The option loop and the operands (lines 145 to 215)\<close>

text \<open>
  One turn of the \<open>switch\<close>. \<open>print_usage\<close> ends in \<open>exit(EXIT_FAILURE)\<close>, so each
  rejection is \<open>Inl EXIT_FAILURE\<close>. In case \<open>'S'\<close> the \<open>long\<close> that \<open>strtol\<close>
  returns is stored in the \<open>unsigned int uart_speed\<close>, that is, reduced modulo
  \<open>2 ^ 32\<close>, before it is compared with 6000000.
\<close>

fun handle_opt :: "opt \<Rightarrow> opts \<Rightarrow> int + opts" where
  "handle_opt Opt_o cf = Inr (cf\<lparr>send_open := True\<rparr>)"
| "handle_opt Opt_c cf = Inr (cf\<lparr>send_close := True\<rparr>)"
| "handle_opt Opt_f cf = Inr (cf\<lparr>send_read_status_flags := True\<rparr>)"
| "handle_opt Opt_l cf = Inr (cf\<lparr>send_listen := True\<rparr>)"
| "handle_opt (Opt_s a) cf =
     (if 1 < length a then Inl EXIT_FAILURE else Inr (cf\<lparr>speed := Some a\<rparr>))"
| "handle_opt (Opt_S a) cf =
     (let r = strtol a;
          cf' = cf\<lparr>uart_speed := word_of_int (fst r)\<rparr>
      in if snd r then Inl EXIT_FAILURE
         else if 6000000 < uart_speed cf' then Inl EXIT_FAILURE
         else Inr cf')"
| "handle_opt (Opt_t a) cf =
     (if a = ''hw'' then Inr (cf\<lparr>flow_type := FLOW_HW\<rparr>)
      else if a = ''sw'' then Inr (cf\<lparr>flow_type := FLOW_SW\<rparr>)
      else Inl EXIT_FAILURE)"
| "handle_opt (Opt_b a) cf =
     (if 8 < length a then Inl EXIT_FAILURE else Inr (cf\<lparr>btr := Some a\<rparr>))"
| "handle_opt Opt_F cf = Inr (cf\<lparr>run_as_daemon := False\<rparr>)"
| "handle_opt Opt_h cf = Inl EXIT_FAILURE"
| "handle_opt Opt_unknown cf = Inl EXIT_FAILURE"

fun parse_options :: "opt list \<Rightarrow> opts \<Rightarrow> int + opts" where
  "parse_options [] cf = Inr cf"
| "parse_options (x # xs) cf =
     (case handle_opt x cf of Inl st \<Rightarrow> Inl st | Inr cf' \<Rightarrow> parse_options xs cf')"

text \<open>Lines 211 to 215: the path that is opened, cut to the size of \<open>ttypath\<close>.\<close>

definition make_ttypath :: "string \<Rightarrow> string" where
  "make_ttypath tty =
     (if strstr tty devprefix \<noteq> Some 0 then take (TTYPATH_LENGTH - 1) (devprefix @ tty)
      else take (TTYPATH_LENGTH - 1) tty)"

text \<open>
  Lines 145 to 215 as a whole: the variables of the option loop, the path and the
  optional interface name, or the status of the \<open>exit\<close>. No system call on the
  device is made here.
\<close>

definition resolve :: "cmdline \<Rightarrow> int + (opts \<times> string \<times> string option)" where
  "resolve args =
     (case parse_options (options args) initial_opts of
        Inl st \<Rightarrow> Inl st
      | Inr cf \<Rightarrow>
          (case operands args of
             [] \<Rightarrow> Inl EXIT_FAILURE
           | tty # rest \<Rightarrow>
               (let name = (case rest of [] \<Rightarrow> None | n # _ \<Rightarrow> Some n)
                in if (case name of None \<Rightarrow> False | Some n \<Rightarrow> IFNAMSIZ - 1 < length n)
                   then Inl EXIT_FAILURE
                   else Inr (cf, make_ttypath tty, name))))"

subsection \<open>Line setup (lines 219 to 275)\<close>

text \<open>Lines 254 to 268: the configuration built from what \<open>TCGETS2\<close> returned.\<close>

definition uart_settings :: "termios2 \<Rightarrow> 32 word \<Rightarrow> int \<Rightarrow> termios2" where
  "uart_settings tios baud flow =
     (let t1 = tios\<lparr>c_iflag := c_iflag tios AND NOT IXOFF\<rparr>;
          t2 = t1\<lparr>c_cflag := c_cflag t1 AND NOT CRTSCTS\<rparr>;
          t3 = t2\<lparr>c_cflag := c_cflag t2 AND NOT CBAUD\<rparr>;
          t4 = t3\<lparr>c_cflag := c_cflag t3 OR BOTHER\<rparr>;
          t5 = t4\<lparr>c_ispeed := baud\<rparr>;
          t6 = t5\<lparr>c_ospeed := baud\<rparr>
      in if flow = FLOW_HW then t6\<lparr>c_cflag := c_cflag t6 OR CRTSCTS\<rparr>
         else if flow = FLOW_SW then t6\<lparr>c_iflag := c_iflag t6 OR (IXON OR IXOFF)\<rparr>
         else t6)"

text \<open>
  The device is opened and read twice (\<open>tios\<close>, then \<open>tios_old\<close>); the two
  latency calls may fail without ending the run; the new configuration is handed
  to the device, which holds it when the call succeeds. The result is \<open>tios_old\<close>.
\<close>

definition line_setup ::
  "env \<Rightarrow> opts \<Rightarrow> string \<Rightarrow> world \<Rightarrow> (outcome \<times> world) + (termios2 \<times> world)" where
  "line_setup e cf ttypath w0 =
     (let w1 = issue (Open ttypath) w0 in
      if fails e At_open then Inl (Exit EXIT_FAILURE, w1) else
      let w2 = issue Tcgets2 w1; tios = tty_tios w2 in
      if fails e At_tcgets2_tios then Inl (Exit EXIT_FAILURE, w2) else
      let w3 = issue Tcgets2 w2; tios_old = tty_tios w3 in
      if fails e At_tcgets2_old then Inl (Exit EXIT_FAILURE, w3) else
      let w4 = issue Tiocgserial w3;
          w5 = issue Tiocsserial w4;
          tios' = uart_settings tios (uart_speed cf) (flow_type cf);
          w6 = issue (Tcsets2 tios') w5 in
      if fails e At_tcsets2_new then Inl (Exit EXIT_FAILURE, issue Close_fd w6)
      else Inr (tios_old, w6\<lparr>tty_tios := tios'\<rparr>))"

subsection \<open>Protocol primer (lines 277 to 313)\<close>

text \<open>One \<open>write\<close> of a command buffer; a result \<open>\<le> 0\<close> ends the run.\<close>

definition write_cmd :: "env \<Rightarrow> site \<Rightarrow> string \<Rightarrow> world \<Rightarrow> (outcome \<times> world) + world" where
  "write_cmd e s buf w =
     (let w' = issue (Write buf) w
      in if fails e s then Inl (Exit EXIT_FAILURE, w') else Inr w')"

definition primer :: "env \<Rightarrow> opts \<Rightarrow> world \<Rightarrow> (outcome \<times> world) + world" where
  "primer e cf w =
     andthen (case speed cf of
                None \<Rightarrow> Inr w
              | Some s \<Rightarrow> write_cmd e At_write_speed (''C'' @ [CR] @ ''S'' @ s @ [CR]) w)
       (\<lambda>w1.
     andthen (case btr cf of
                None \<Rightarrow> Inr w1
              | Some b \<Rightarrow> write_cmd e At_write_btr (''C'' @ [CR] @ ''s'' @ b @ [CR]) w1)
       (\<lambda>w2.
     andthen (if send_read_status_flags cf
              then write_cmd e At_write_flags (''F'' @ [CR]) w2 else Inr w2)
       (\<lambda>w3.
     if send_listen cf then write_cmd e At_write_listen (''L'' @ [CR]) w3
     else if send_open cf then write_cmd e At_write_open (''O'' @ [CR]) w3
     else Inr w3)))"

subsection \<open>Discipline attach and rename (lines 315 to 349)\<close>

definition attach :: "env \<Rightarrow> string option \<Rightarrow> world \<Rightarrow> (outcome \<times> world) + world" where
  "attach e name w =
     (let w1 = issue (Tiocsetd N_SLCAN) w in
      if fails e At_tiocsetd_slcan then Inl (Exit EXIT_FAILURE, w1) else
      let w2 = issue Siocgifname w1 in
      if fails e At_siocgifname then Inl (Exit EXIT_FAILURE, w2) else
      case name of
        None \<Rightarrow> Inr w2
      | Some n \<Rightarrow>
          (let w3 = issue Socket w2 in
           if fails e At_socket then Inr w3 else
           let w4 = issue (Siocsifname (ifr_name e) (take (IFNAMSIZ - 1) n)) w3 in
           if fails e At_siocsifname then Inl (Exit EXIT_FAILURE, w4)
           else Inr (issue Close_socket w4)))"

subsection \<open>Run supervisor (lines 96 to 116 and 351 to 366)\<close>

text \<open>The handler: \<open>SIGUSR1\<close> exits, four signals stop the loop, any other does nothing.\<close>

definition child_handler :: "int \<Rightarrow> world \<Rightarrow> (outcome \<times> world) + world" where
  "child_handler signum w =
     (if signum = SIGUSR1 then Inl (Exit EXIT_SUCCESS, w)
      else if signum = SIGINT \<or> signum = SIGTERM \<or> signum = SIGALRM \<or> signum = SIGCHLD
      then Inr (w\<lparr>exit_code := 128 + signum, slcand_running := 0\<rparr>)
      else Inr w)"

text \<open>Lines 352 to 361: \<open>daemon\<close>, or the two calls of \<open>signal\<close>.\<close>

definition enter_running :: "env \<Rightarrow> opts \<Rightarrow> world \<Rightarrow> (outcome \<times> world) + world" where
  "enter_running e cf w =
     (if run_as_daemon cf then
        (let w1 = issue Daemon w
         in if fails e At_daemon then Inl (Exit EXIT_FAILURE, w1) else Inr w1)
      else
        (let w1 = (issue (Signal SIGINT) w)\<lparr>trapped := insert SIGINT (trapped w)\<rparr>;
             w2 = (issue (Signal SIGTERM) w1)\<lparr>trapped := insert SIGTERM (trapped w1)\<rparr>
         in Inr w2))"

text \<open>
  A signal reaches the process: the handler runs when one is installed for it,
  otherwise the kernel's default applies.
\<close>

definition deliver :: "env \<Rightarrow> int \<Rightarrow> world \<Rightarrow> (outcome \<times> world) + world" where
  "deliver e signum w =
     (if signum \<in> trapped w then child_handler signum w
      else (case sig_default e signum of
              Terminate \<Rightarrow> Inl (Killed signum, w)
            | Ignore \<Rightarrow> Inr w))"

text \<open>
  Line 366, \<open>while (slcand_running) sleep(1)\<close>. The flag is tested; while it is
  set the process sleeps, and the only thing that can change the flag is a
  signal. A sleep that passes without one changes nothing, so the loop is a
  recursion over the signals that arrive; when none is left and the flag is still
  set the loop never ends.
\<close>

fun wait_loop :: "env \<Rightarrow> int list \<Rightarrow> world \<Rightarrow> (outcome \<times> world) + world" where
  "wait_loop e [] w = (if slcand_running w \<noteq> 0 then Inl (Never, w) else Inr w)"
| "wait_loop e (s # ss) w =
     (if slcand_running w \<noteq> 0
      then (case deliver e s w of Inl x \<Rightarrow> Inl x | Inr w' \<Rightarrow> wait_loop e ss w')
      else Inr w)"

subsection \<open>Teardown (lines 368 to 395)\<close>

definition teardown :: "env \<Rightarrow> opts \<Rightarrow> termios2 \<Rightarrow> world \<Rightarrow> (outcome \<times> world) + world" where
  "teardown e cf tios_old w =
     (let w1 = issue (Tiocsetd N_TTY) w in
      if fails e At_tiocsetd_tty then Inl (Exit EXIT_FAILURE, w1) else
      andthen (if send_close cf then write_cmd e At_write_close (''C'' @ [CR]) w1 else Inr w1)
        (\<lambda>w2.
      let w3 = issue (Tcsets2 tios_old) w2 in
      if fails e At_tcsets2_old then Inl (Exit EXIT_FAILURE, w3)
      else Inr (w3\<lparr>tty_tios := tios_old\<rparr>)))"

subsection \<open>The function main\<close>

text \<open>Lines 219 to 349: everything between the operands and the supervisor.\<close>

definition startup ::
  "env \<Rightarrow> opts \<Rightarrow> string \<Rightarrow> string option \<Rightarrow> world \<Rightarrow> (outcome \<times> world) + (termios2 \<times> world)" where
  "startup e cf ttypath name w =
     andthen (line_setup e cf ttypath w) (\<lambda>r.
     andthen (primer e cf (snd r)) (\<lambda>w2.
     andthen (attach e name w2) (\<lambda>w3. Inr (fst r, w3))))"

text \<open>Lines 351 to 395: the supervisor, the wait loop and the teardown.\<close>

definition supervise :: "env \<Rightarrow> opts \<Rightarrow> termios2 \<Rightarrow> world \<Rightarrow> (outcome \<times> world) + world" where
  "supervise e cf tios_old w =
     andthen (enter_running e cf w) (\<lambda>w1.
     andthen (wait_loop e (signals e) (w1\<lparr>slcand_running := 1\<rparr>)) (\<lambda>w2.
     teardown e cf tios_old w2))"

definition main :: "cmdline \<Rightarrow> env \<Rightarrow> outcome \<times> world" where
  "main args e =
     (case resolve args of
        Inl st \<Rightarrow> (Exit st, initial_world e)
      | Inr (cf, ttypath, name) \<Rightarrow>
          (case andthen (startup e cf ttypath name (initial_world e))
                  (\<lambda>r. supervise e cf (fst r) (snd r)) of
             Inl x \<Rightarrow> x
           | Inr w \<Rightarrow> (Return (exit_code w), w)))"

subsection \<open>Reading a run\<close>

text \<open>The bytes handed to \<open>write\<close>, in order.\<close>

fun written :: "action list \<Rightarrow> string" where
  "written [] = []"
| "written (Write buf # as) = buf @ written as"
| "written (a # as) = written as"

text \<open>The first configuration handed to the device with \<open>TCSETS2\<close>.\<close>

fun first_tcsets2 :: "action list \<Rightarrow> termios2 option" where
  "first_tcsets2 [] = None"
| "first_tcsets2 (Tcsets2 t # as) = Some t"
| "first_tcsets2 (a # as) = first_tcsets2 as"

text \<open>The calls that enter the run supervisor.\<close>

fun supervisor_call :: "action \<Rightarrow> bool" where
  "supervisor_call Daemon = True"
| "supervisor_call (Signal s) = True"
| "supervisor_call a = False"

subsection \<open>The primer as the specification words it\<close>

text \<open>
  The commands in the order the specification gives: the speed command, the
  bit-timing command, the status-flag command, then listen-only or else open.
\<close>

definition spec_primer_commands :: "opts \<Rightarrow> string" where
  "spec_primer_commands cf =
     (case speed cf of None \<Rightarrow> [] | Some s \<Rightarrow> ''C'' @ [CR] @ ''S'' @ s @ [CR]) @
     (case btr cf of None \<Rightarrow> [] | Some b \<Rightarrow> ''C'' @ [CR] @ ''s'' @ b @ [CR]) @
     (if send_read_status_flags cf then ''F'' @ [CR] else []) @
     (if send_listen cf then ''L'' @ [CR] else if send_open cf then ''O'' @ [CR] else [])"

subsection \<open>A concrete system\<close>

text \<open>
  A serial line as Linux sets it up (\<open>ICRNL | IXON\<close>, 38400 baud), a kernel that
  names the interface \<open>slcan0\<close>, no failing call, and one \<open>SIGTERM\<close>. The default
  dispositions are those of Linux for the signals 1 to 64: \<open>SIGCHLD\<close>, \<open>SIGCONT\<close>,
  \<open>SIGURG\<close> and \<open>SIGWINCH\<close> are ignored; \<open>SIGSTOP\<close>, \<open>SIGTSTP\<close>, \<open>SIGTTIN\<close> and
  \<open>SIGTTOU\<close> stop the process, which goes on where it was when it is continued,
  so they leave the run as it is; every other signal ends the process. A number
  outside 1 to 64 is no signal and cannot be delivered.
\<close>

definition example_tios :: termios2 where
  "example_tios =
     \<lparr>c_iflag = 0x500, c_oflag = 5, c_cflag = 0x4BF, c_lflag = 0x8A3B, c_line = 0,
      c_cc = replicate 19 0, c_ispeed = 38400, c_ospeed = 38400\<rparr>"

definition posix_default :: "int \<Rightarrow> disposition" where
  "posix_default s =
     (if s < 1 \<or> 64 < s then Ignore
      else if s = SIGCHLD \<or> s = SIGCONT \<or> s = SIGURG \<or> s = SIGWINCH then Ignore
      else if s = SIGSTOP \<or> s = SIGTSTP \<or> s = SIGTTIN \<or> s = SIGTTOU then Ignore
      else Terminate)"

definition example_env :: env where
  "example_env =
     \<lparr>fails = (\<lambda>s. False), line_config = example_tios, ifr_name = ''slcan0'',
      sig_default = posix_default, signals = [SIGTERM]\<rparr>"

text \<open>
  A command line that stays in the foreground, sets the CAN speed, opens and
  closes the channel and asks for the name \<open>can0\<close>; one that goes to the
  background; and a world in the wait loop with the two handlers of the
  foreground mode installed.
\<close>

definition example_fg :: cmdline where
  "example_fg = \<lparr>options = [Opt_s ''6'', Opt_o, Opt_c, Opt_F], operands = [''ttyUSB0'', ''can0'']\<rparr>"


definition example_running :: world where
  "example_running =
     \<lparr>tty_tios = example_tios, trace = [], trapped = {SIGINT, SIGTERM}, slcand_running = 1,
      exit_code = 0\<rparr>"

text \<open>
  The options that the \<open>switch\<close> rejects whatever came before them: the checks
  of lines 161, 167, 168, 174 to 181, 185 and 193, as the code computes them.
\<close>

fun invalid_opt :: "opt \<Rightarrow> bool" where
  "invalid_opt (Opt_s a) = (1 < length a)"
| "invalid_opt (Opt_b a) = (8 < length a)"
| "invalid_opt (Opt_t a) = (a \<noteq> ''hw'' \<and> a \<noteq> ''sw'')"
| "invalid_opt (Opt_S a) = (snd (strtol a) \<or> 6000000 < (word_of_int (fst (strtol a)) :: 32 word))"
| "invalid_opt Opt_h = True"
| "invalid_opt Opt_unknown = True"
| "invalid_opt x = False"

text \<open>
  The failures that end the run before the supervisor, for the variables \<open>cf\<close> and
  the optional name: a failing call among those of lines 219 to 349 that the run
  reaches and that is followed by \<open>exit(EXIT_FAILURE)\<close>. The two latency calls and
  the \<open>socket\<close> call are not among them. Likewise for the teardown, lines 371 to
  389.
\<close>

definition startup_fails :: "env \<Rightarrow> opts \<Rightarrow> string option \<Rightarrow> bool" where
  "startup_fails e cf name =
     (fails e At_open \<or> fails e At_tcgets2_tios \<or> fails e At_tcgets2_old
      \<or> fails e At_tcsets2_new
      \<or> (speed cf \<noteq> None \<and> fails e At_write_speed)
      \<or> (btr cf \<noteq> None \<and> fails e At_write_btr)
      \<or> (send_read_status_flags cf \<and> fails e At_write_flags)
      \<or> (send_listen cf \<and> fails e At_write_listen)
      \<or> (send_open cf \<and> \<not> send_listen cf \<and> fails e At_write_open)
      \<or> fails e At_tiocsetd_slcan \<or> fails e At_siocgifname
      \<or> (name \<noteq> None \<and> fails e At_siocsifname \<and> \<not> fails e At_socket))"

definition teardown_fails :: "env \<Rightarrow> opts \<Rightarrow> bool" where
  "teardown_fails e cf =
     (fails e At_tiocsetd_tty \<or> (send_close cf \<and> fails e At_write_close)
      \<or> fails e At_tcsets2_old)"

section \<open>Properties of the stages\<close>

lemma written_append: "written (xs @ ys) = written xs @ written ys"
  by (induction xs rule: written.induct) simp_all

lemma first_tcsets2_append:
  "first_tcsets2 (xs @ ys) = (case first_tcsets2 xs of None \<Rightarrow> first_tcsets2 ys | Some t \<Rightarrow> Some t)"
  by (induction xs rule: first_tcsets2.induct) simp_all

lemma handle_opt_Inl: "handle_opt x cf = Inl st \<Longrightarrow> st = EXIT_FAILURE"
  by (cases x) (auto simp: Let_def split: if_splits)

lemma parse_options_Inl: "parse_options xs cf = Inl st \<Longrightarrow> st = EXIT_FAILURE"
  by (induction xs arbitrary: cf) (auto split: sum.splits dest: handle_opt_Inl)

lemma resolve_Inl: "resolve args = Inl st \<Longrightarrow> st = EXIT_FAILURE"
  by (auto simp: resolve_def Let_def split: sum.splits list.splits if_splits dest: parse_options_Inl)

lemma main_cases [consumes 1, case_names reject startup_fail enter_fail loop_stop teardown_fail returned]:
  assumes "main args e = (out, w)"
  obtains
    st where "resolve args = Inl st" "out = Exit st" "w = initial_world e"
  | cf p name where "resolve args = Inr (cf, p, name)"
      "startup e cf p name (initial_world e) = Inl (out, w)"
  | cf p name t w3 where "resolve args = Inr (cf, p, name)"
      "startup e cf p name (initial_world e) = Inr (t, w3)"
      "enter_running e cf w3 = Inl (out, w)"
  | cf p name t w3 w4 where "resolve args = Inr (cf, p, name)"
      "startup e cf p name (initial_world e) = Inr (t, w3)"
      "enter_running e cf w3 = Inr w4"
      "wait_loop e (signals e) (w4\<lparr>slcand_running := 1\<rparr>) = Inl (out, w)"
  | cf p name t w3 w4 w5 where "resolve args = Inr (cf, p, name)"
      "startup e cf p name (initial_world e) = Inr (t, w3)"
      "enter_running e cf w3 = Inr w4"
      "wait_loop e (signals e) (w4\<lparr>slcand_running := 1\<rparr>) = Inr w5"
      "teardown e cf t w5 = Inl (out, w)"
  | cf p name t w3 w4 w5 where "resolve args = Inr (cf, p, name)"
      "startup e cf p name (initial_world e) = Inr (t, w3)"
      "enter_running e cf w3 = Inr w4"
      "wait_loop e (signals e) (w4\<lparr>slcand_running := 1\<rparr>) = Inr w5"
      "teardown e cf t w5 = Inr w" "out = Return (exit_code w)"
  using assms
  by (auto simp: main_def andthen_def supervise_def split: sum.splits prod.splits)

lemma startup_cases [consumes 1, case_names line_fail primer_fail attach_fail]:
  assumes "startup e cf p name w = Inl x"
  obtains
    "line_setup e cf p w = Inl x"
  | t w1 where "line_setup e cf p w = Inr (t, w1)" "primer e cf w1 = Inl x"
  | t w1 w2 where "line_setup e cf p w = Inr (t, w1)" "primer e cf w1 = Inr w2"
      "attach e name w2 = Inl x"
  using assms
  by (auto simp: startup_def andthen_def split: sum.splits prod.splits)

lemma startup_Inr:
  assumes "startup e cf p name w = Inr (t, w3)"
  obtains w1 w2 where "line_setup e cf p w = Inr (t, w1)" "primer e cf w1 = Inr w2"
      "attach e name w2 = Inr w3"
  using assms
  by (auto simp: startup_def andthen_def split: sum.splits prod.splits)


lemma line_setup_Inr:
  assumes "line_setup e cf p w = Inr (t, w')"
  shows "t = tty_tios w"
    and "trace w' = trace w @ [Open p, Tcgets2, Tcgets2, Tiocgserial, Tiocsserial,
           Tcsets2 (uart_settings (tty_tios w) (uart_speed cf) (flow_type cf))]"
    and "tty_tios w' = uart_settings (tty_tios w) (uart_speed cf) (flow_type cf)"
    and "trapped w' = trapped w" and "slcand_running w' = slcand_running w"
    and "exit_code w' = exit_code w"
  using assms by (auto simp: line_setup_def issue_def Let_def split: if_splits)

lemma line_setup_Inl:
  assumes "line_setup e cf p w = Inl (out, w')"
  shows "out = Exit EXIT_FAILURE"
    and "\<exists>ys. trace w' = trace w @ ys \<and> written ys = [] \<and> \<not> list_ex supervisor_call ys
           \<and> (first_tcsets2 ys = None
              \<or> first_tcsets2 ys = Some (uart_settings (tty_tios w) (uart_speed cf) (flow_type cf)))"
  using assms by (auto simp: line_setup_def issue_def Let_def split: if_splits)

lemma write_cmd_Inr:
  "write_cmd e s buf w = Inr w' \<Longrightarrow> \<not> fails e s \<and> w' = w\<lparr>trace := trace w @ [Write buf]\<rparr>"
  by (auto simp: write_cmd_def issue_def Let_def split: if_splits)

lemma write_cmd_Inl:
  "write_cmd e s buf w = Inl (out, w') \<Longrightarrow>
     fails e s \<and> out = Exit EXIT_FAILURE \<and> w' = w\<lparr>trace := trace w @ [Write buf]\<rparr>"
  by (auto simp: write_cmd_def issue_def Let_def split: if_splits)

lemma primer_frame:
  assumes "primer e cf w = r" and "r = Inl (out, w') \<or> r = Inr w'"
  shows "\<exists>ys. trace w' = trace w @ ys \<and> \<not> list_ex supervisor_call ys \<and> first_tcsets2 ys = None"
    and "tty_tios w' = tty_tios w" and "trapped w' = trapped w"
    and "slcand_running w' = slcand_running w" and "exit_code w' = exit_code w"
  using assms
  by (auto simp: primer_def andthen_def write_cmd_def issue_def Let_def
      split: if_splits option.splits sum.splits)

lemma primer_Inl: "primer e cf w = Inl (out, w') \<Longrightarrow> out = Exit EXIT_FAILURE"
  by (auto simp: primer_def andthen_def write_cmd_def issue_def Let_def
      split: if_splits option.splits sum.splits)

lemma attach_frame:
  assumes "attach e name w = r" and "r = Inl (out, w') \<or> r = Inr w'"
  shows "\<exists>ys. trace w' = trace w @ ys \<and> written ys = [] \<and> \<not> list_ex supervisor_call ys
           \<and> first_tcsets2 ys = None"
    and "tty_tios w' = tty_tios w" and "trapped w' = trapped w"
    and "slcand_running w' = slcand_running w" and "exit_code w' = exit_code w"
  using assms
  by (auto simp: attach_def issue_def Let_def split: if_splits option.splits)

lemma attach_Inl: "attach e name w = Inl (out, w') \<Longrightarrow> out = Exit EXIT_FAILURE"
  by (auto simp: attach_def issue_def Let_def split: if_splits option.splits)

lemma enter_running_frame:
  assumes "enter_running e cf w = r" and "r = Inl (out, w') \<or> r = Inr w'"
  shows "\<exists>ys. trace w' = trace w @ ys \<and> written ys = [] \<and> first_tcsets2 ys = None"
    and "tty_tios w' = tty_tios w"
    and "trapped w' = (if run_as_daemon cf then trapped w else insert SIGTERM (insert SIGINT (trapped w)))"
    and "slcand_running w' = slcand_running w" and "exit_code w' = exit_code w"
  using assms
  by (auto simp: enter_running_def issue_def Let_def split: if_splits)

lemma enter_running_Inl: "enter_running e cf w = Inl (out, w') \<Longrightarrow> out = Exit EXIT_FAILURE"
  by (auto simp: enter_running_def issue_def Let_def split: if_splits)

lemma child_handler_frame:
  assumes "child_handler s w = r" and "r = Inl (out, w') \<or> r = Inr w'"
  shows "trace w' = trace w" and "tty_tios w' = tty_tios w" and "trapped w' = trapped w"
  using assms by (auto simp: child_handler_def split: if_splits)

lemma deliver_frame:
  assumes "deliver e s w = r" and "r = Inl (out, w') \<or> r = Inr w'"
  shows "trace w' = trace w" and "tty_tios w' = tty_tios w" and "trapped w' = trapped w"
  using assms
  by (auto simp: deliver_def child_handler_def split: if_splits disposition.splits)

lemma deliver_Inl:
  "deliver e s w = Inl (out, w') \<Longrightarrow> out = Exit EXIT_SUCCESS \<or> out = Killed s"
  by (auto simp: deliver_def child_handler_def split: if_splits disposition.splits)

lemma wait_loop_stopped: "slcand_running w = 0 \<Longrightarrow> wait_loop e ss w = Inr w"
  by (cases ss) simp_all

lemma wait_loop_frame:
  assumes "wait_loop e ss w = r" and "r = Inl (out, w') \<or> r = Inr w'"
  shows "trace w' = trace w \<and> tty_tios w' = tty_tios w \<and> trapped w' = trapped w"
  using assms
proof (induction ss arbitrary: w r)
  case Nil
  then show ?case by (auto split: if_splits)
next
  case (Cons s ss)
  show ?case
  proof (cases "slcand_running w = 0")
    case True
    with Cons.prems show ?thesis by auto
  next
    case False
    show ?thesis
    proof (cases "deliver e s w")
      case (Inl x)
      with False Cons.prems have "x = (out, w')" by auto
      with Inl deliver_frame [of e s w "Inl (out, w')" out w'] show ?thesis by simp
    next
      case (Inr w1)
      with False Cons.prems have "wait_loop e ss w1 = r" by simp
      from Cons.IH [OF this Cons.prems(2)] deliver_frame [of e s w "Inr w1" out w1] Inr
      show ?thesis by simp
    qed
  qed
qed

lemma wait_loop_Inl:
  "wait_loop e ss w = Inl (out, w') \<Longrightarrow> out = Never \<or> out = Exit EXIT_SUCCESS \<or> (\<exists>s\<in>set ss. out = Killed s)"
proof (induction ss arbitrary: w)
  case Nil
  then show ?case by (auto split: if_splits)
next
  case (Cons s ss)
  then show ?case
    by (auto split: if_splits sum.splits dest: deliver_Inl)
qed


lemma wait_loop_Inr:
  assumes "slcand_running w \<noteq> 0" and "wait_loop e ss w = Inr w'"
  shows "\<exists>s\<in>set ss. s \<in> trapped w
           \<and> (s = SIGINT \<or> s = SIGTERM \<or> s = SIGALRM \<or> s = SIGCHLD)
           \<and> exit_code w' = 128 + s \<and> slcand_running w' = 0"
  using assms
proof (induction ss arbitrary: w)
  case Nil
  then show ?case by simp
next
  case (Cons s ss)
  from Cons.prems obtain w1 where d: "deliver e s w = Inr w1" and l: "wait_loop e ss w1 = Inr w'"
    by (auto split: sum.splits)
  show ?case
  proof (cases "s \<in> trapped w \<and> (s = SIGINT \<or> s = SIGTERM \<or> s = SIGALRM \<or> s = SIGCHLD)")
    case True
    with d have "w1 = w\<lparr>exit_code := 128 + s, slcand_running := 0\<rparr>"
      by (auto simp: deliver_def child_handler_def split: if_splits)
    with l have "w' = w\<lparr>exit_code := 128 + s, slcand_running := 0\<rparr>"
      by (simp add: wait_loop_stopped)
    with True show ?thesis by simp
  next
    case False
    with d have "w1 = w"
      by (auto simp: deliver_def child_handler_def split: if_splits disposition.splits)
    with Cons.IH [of w] Cons.prems(1) l show ?thesis by auto
  qed
qed

lemma wait_loop_signal:
  assumes "slcand_running w \<noteq> 0"
    and "\<forall>x\<in>set pre. x \<notin> trapped w \<and> sig_default e x = Ignore"
    and "s \<in> trapped w" and "s = SIGINT \<or> s = SIGTERM \<or> s = SIGALRM \<or> s = SIGCHLD"
  shows "wait_loop e (pre @ s # ss) w = Inr (w\<lparr>exit_code := 128 + s, slcand_running := 0\<rparr>)"
  using assms
proof (induction pre)
  case Nil
  then have "deliver e s w = Inr (w\<lparr>exit_code := 128 + s, slcand_running := 0\<rparr>)"
    by (auto simp: deliver_def child_handler_def SIGINT_def SIGTERM_def SIGALRM_def
        SIGCHLD_def SIGUSR1_def)
  with Nil show ?case by (simp add: wait_loop_stopped)
next
  case (Cons x pre)
  then have "deliver e x w = Inr w" by (simp add: deliver_def)
  with Cons show ?case by simp
qed

lemma teardown_Inr:
  assumes "teardown e cf t w = Inr w'"
  shows "tty_tios w' = t" and "exit_code w' = exit_code w"
    and "slcand_running w' = slcand_running w"
    and "trace w' = trace w @ Tiocsetd N_TTY # (if send_close cf then [Write (''C'' @ [CR])] else [])
           @ [Tcsets2 t]"
  using assms
  by (auto simp: teardown_def andthen_def write_cmd_def issue_def Let_def
      split: if_splits sum.splits)

lemma teardown_Inl:
  assumes "teardown e cf t w = Inl (out, w')"
  shows "out = Exit EXIT_FAILURE" and "exit_code w' = exit_code w"
    and "slcand_running w' = slcand_running w"
    and "\<exists>ys. trace w' = trace w @ Tiocsetd N_TTY # ys"
  using assms
  by (auto simp: teardown_def andthen_def write_cmd_def issue_def Let_def
      split: if_splits sum.splits)

lemma uart_settings_speed:
  "c_ispeed (uart_settings t b f) = b" "c_ospeed (uart_settings t b f) = b"
  by (simp_all add: uart_settings_def Let_def)

lemma mask_cleared: "(x AND NOT m) AND m = (0 :: 32 word)"
  by (simp add: and.assoc)

lemma uart_settings_baud_bits: "c_cflag (uart_settings t b f) AND CBAUD = BOTHER"
proof -
  have b: "BOTHER AND CBAUD = BOTHER" by (simp add: CBAUD_def BOTHER_def)
  have h: "CRTSCTS AND CBAUD = 0" by (simp add: CRTSCTS_def CBAUD_def)
  show ?thesis
    by (simp add: uart_settings_def Let_def bit.conj_disj_distrib2 mask_cleared b h)
qed

lemma handle_opt_uart_speed:
  "(\<forall>a. x \<noteq> Opt_S a) \<Longrightarrow> handle_opt x cf = Inr cf' \<Longrightarrow> uart_speed cf' = uart_speed cf"
  by (cases x) (auto split: if_splits)

lemma parse_options_uart_speed:
  "(\<forall>a. Opt_S a \<notin> set xs) \<Longrightarrow> parse_options xs cf = Inr cf' \<Longrightarrow> uart_speed cf' = uart_speed cf"
proof (induction xs arbitrary: cf)
  case Nil
  then show ?case by simp
next
  case (Cons x xs)
  from Cons.prems(2) obtain cf1 where h: "handle_opt x cf = Inr cf1"
    and p: "parse_options xs cf1 = Inr cf'"
    by (auto split: sum.splits)
  from Cons.prems(1) have "\<forall>a. x \<noteq> Opt_S a" by auto
  from handle_opt_uart_speed [OF this h] Cons.IH [OF _ p] Cons.prems(1)
  show ?case by simp
qed

lemma resolve_Inr:
  assumes "resolve args = Inr (cf, p, name)"
  shows "parse_options (options args) initial_opts = Inr cf"
    and "name \<noteq> None \<longleftrightarrow> 1 < length (operands args)"
    and "operands args \<noteq> []" and "p = make_ttypath (hd (operands args))"
  using assms
  by (auto simp: resolve_def Let_def split: sum.splits list.splits if_splits)

lemma attach_Inr:
  assumes "attach e name w = Inr w'"
  shows "\<not> fails e At_tiocsetd_slcan" and "\<not> fails e At_siocgifname"
    and "name = None \<or> fails e At_socket \<or> \<not> fails e At_siocsifname"
  using assms
  by (auto simp: attach_def Let_def split: if_splits option.splits)


lemma startup_Inr_frame:
  assumes "startup e cf p name w = Inr (t, w3)"
  shows "t = tty_tios w" and "trapped w3 = trapped w" and "slcand_running w3 = slcand_running w"
    and "exit_code w3 = exit_code w"
    and "tty_tios w3 = uart_settings (tty_tios w) (uart_speed cf) (flow_type cf)"
    and "\<exists>ys. trace w3 = trace w @ [Open p, Tcgets2, Tcgets2, Tiocgserial, Tiocsserial,
           Tcsets2 (uart_settings (tty_tios w) (uart_speed cf) (flow_type cf))] @ ys
           \<and> \<not> list_ex supervisor_call ys \<and> first_tcsets2 ys = None"
proof -
  from assms obtain w1 w2 where l: "line_setup e cf p w = Inr (t, w1)"
    and pr: "primer e cf w1 = Inr w2" and a: "attach e name w2 = Inr w3"
    by (rule startup_Inr)
  note L = line_setup_Inr [OF l]
  note P = primer_frame [OF pr, of undefined w2, simplified]
  note A = attach_frame [OF a, of undefined w3, simplified]
  show "t = tty_tios w" by (rule L(1))
  show "trapped w3 = trapped w" using L P A by simp
  show "slcand_running w3 = slcand_running w" using L P A by simp
  show "exit_code w3 = exit_code w" using L P A by simp
  show "tty_tios w3 = uart_settings (tty_tios w) (uart_speed cf) (flow_type cf)"
    using L P A by simp
  from P(1) obtain ys where ys: "trace w2 = trace w1 @ ys" "\<not> list_ex supervisor_call ys"
    "first_tcsets2 ys = None" by blast
  from A(1) obtain zs where zs: "trace w3 = trace w2 @ zs" "\<not> list_ex supervisor_call zs"
    "first_tcsets2 zs = None" by blast
  have "trace w3 = trace w @ [Open p, Tcgets2, Tcgets2, Tiocgserial, Tiocsserial,
           Tcsets2 (uart_settings (tty_tios w) (uart_speed cf) (flow_type cf))] @ (ys @ zs)"
    using L(2) ys(1) zs(1) by simp
  moreover have "\<not> list_ex supervisor_call (ys @ zs)" using ys(2) zs(2) by simp
  moreover have "first_tcsets2 (ys @ zs) = None"
    using ys(3) zs(3) by (simp add: first_tcsets2_append)
  ultimately show "\<exists>ys. trace w3 = trace w @ [Open p, Tcgets2, Tcgets2, Tiocgserial, Tiocsserial,
           Tcsets2 (uart_settings (tty_tios w) (uart_speed cf) (flow_type cf))] @ ys
           \<and> \<not> list_ex supervisor_call ys \<and> first_tcsets2 ys = None"
    by blast
qed

lemma startup_Inl_frame:
  assumes "startup e cf p name w = Inl (out, w')"
  shows "out = Exit EXIT_FAILURE \<and>
         (\<exists>ys. trace w' = trace w @ ys \<and> \<not> list_ex supervisor_call ys
           \<and> (first_tcsets2 ys = None
              \<or> first_tcsets2 ys = Some (uart_settings (tty_tios w) (uart_speed cf) (flow_type cf))))"
  using assms
proof (cases rule: startup_cases)
  case line_fail
  from line_setup_Inl [OF this] show ?thesis by blast
next
  case (primer_fail t w1)
  note L = line_setup_Inr [OF primer_fail(1)]
  note P = primer_frame [OF primer_fail(2), of out w', simplified]
  have o: "out = Exit EXIT_FAILURE" by (rule primer_Inl [OF primer_fail(2)])
  from P(1) obtain ys where ys: "trace w' = trace w1 @ ys" "\<not> list_ex supervisor_call ys"
    "first_tcsets2 ys = None" by blast
  let ?zs = "[Open p, Tcgets2, Tcgets2, Tiocgserial, Tiocsserial,
           Tcsets2 (uart_settings (tty_tios w) (uart_speed cf) (flow_type cf))] @ ys"
  have "trace w' = trace w @ ?zs" using L(2) ys(1) by simp
  moreover have "\<not> list_ex supervisor_call ?zs" using ys(2) by simp
  moreover have "first_tcsets2 ?zs = Some (uart_settings (tty_tios w) (uart_speed cf) (flow_type cf))"
    by simp
  ultimately show ?thesis using o by blast
next
  case (attach_fail t w1 w2)
  note L = line_setup_Inr [OF attach_fail(1)]
  note P = primer_frame [OF attach_fail(2), of undefined w2, simplified]
  note A = attach_frame [OF attach_fail(3), of out w', simplified]
  have o: "out = Exit EXIT_FAILURE" by (rule attach_Inl [OF attach_fail(3)])
  from P(1) obtain ys where ys: "trace w2 = trace w1 @ ys" "\<not> list_ex supervisor_call ys"
    "first_tcsets2 ys = None" by blast
  from A(1) obtain zs where zs: "trace w' = trace w2 @ zs" "\<not> list_ex supervisor_call zs"
    by blast
  let ?zs = "[Open p, Tcgets2, Tcgets2, Tiocgserial, Tiocsserial,
           Tcsets2 (uart_settings (tty_tios w) (uart_speed cf) (flow_type cf))] @ ys @ zs"
  have "trace w' = trace w @ ?zs" using L(2) ys(1) zs(1) by simp
  moreover have "\<not> list_ex supervisor_call ?zs" using ys(2) zs(2) by simp
  moreover have "first_tcsets2 ?zs = Some (uart_settings (tty_tios w) (uart_speed cf) (flow_type cf))"
    by simp
  ultimately show ?thesis using o by blast
qed

lemma main_Return:
  assumes "main args e = (Return n, w)"
  obtains cf p name w3 w4 w5 where "resolve args = Inr (cf, p, name)"
      "startup e cf p name (initial_world e) = Inr (line_config e, w3)"
      "enter_running e cf w3 = Inr w4"
      "wait_loop e (signals e) (w4\<lparr>slcand_running := 1\<rparr>) = Inr w5"
      "teardown e cf (line_config e) w5 = Inr w" "n = exit_code w"
  using assms
proof (cases rule: main_cases)
  case (reject st)
  then show ?thesis by simp
next
  case (startup_fail cf p name)
  from startup_Inl_frame [OF startup_fail(2)] show ?thesis by simp
next
  case (enter_fail cf p name t w3)
  from enter_running_Inl [OF enter_fail(3)] show ?thesis by simp
next
  case (loop_stop cf p name t w3 w4)
  from wait_loop_Inl [OF loop_stop(4)] show ?thesis by auto
next
  case (teardown_fail cf p name t w3 w4 w5)
  from teardown_Inl(1) [OF teardown_fail(5)] show ?thesis by simp
next
  case (returned cf p name t w3 w4 w5)
  from startup_Inr_frame(1) [OF returned(2)] have "t = line_config e"
    by (simp add: initial_world_def)
  with returned that show ?thesis by simp
qed

lemma main_Return_signal:
  assumes "main args e = (Return n, w)"
  shows "\<exists>s\<in>set (signals e). (s = SIGINT \<or> s = SIGTERM) \<and> n = 128 + s"
    and "slcand_running w = 0" and "exit_code w = n"
proof -
  from assms obtain cf p name w3 w4 w5 where r: "resolve args = Inr (cf, p, name)"
    and s: "startup e cf p name (initial_world e) = Inr (line_config e, w3)"
    and en: "enter_running e cf w3 = Inr w4"
    and wl: "wait_loop e (signals e) (w4\<lparr>slcand_running := 1\<rparr>) = Inr w5"
    and td: "teardown e cf (line_config e) w5 = Inr w" and n: "n = exit_code w"
    by (rule main_Return)
  have t3: "trapped w3 = {}"
    using startup_Inr_frame(2) [OF s] by (simp add: initial_world_def)
  have t4: "trapped w4 \<subseteq> {SIGINT, SIGTERM}"
    using enter_running_frame(3) [OF en, of undefined w4] t3 by (auto split: if_splits)
  from wait_loop_Inr [OF _ wl] obtain s where s: "s \<in> set (signals e)" "s \<in> trapped w4"
    "exit_code w5 = 128 + s" "slcand_running w5 = 0" by auto
  from teardown_Inr [OF td] s n t4
  show "\<exists>s\<in>set (signals e). (s = SIGINT \<or> s = SIGTERM) \<and> n = 128 + s"
    and "slcand_running w = 0" and "exit_code w = n"
    by auto
qed




lemma supervise_frame:
  assumes "supervise e cf t w3 = r" and "r = Inl (out, w) \<or> r = Inr w"
  shows "\<exists>zs. trace w = trace w3 @ zs"
proof (cases "enter_running e cf w3")
  case (Inl x)
  with assms have "enter_running e cf w3 = Inl (out, w)"
    by (auto simp: supervise_def andthen_def)
  then show ?thesis
    by (auto simp: enter_running_def issue_def Let_def split: if_splits)
next
  case (Inr w4)
  from Inr have e4: "\<exists>ys. trace w4 = trace w3 @ ys"
    by (auto simp: enter_running_def issue_def Let_def split: if_splits)
  show ?thesis
  proof (cases "wait_loop e (signals e) (w4\<lparr>slcand_running := 1\<rparr>)")
    case (Inl x)
    with Inr assms have l: "wait_loop e (signals e) (w4\<lparr>slcand_running := 1\<rparr>) = Inl (out, w)"
      by (auto simp: supervise_def andthen_def)
    from wait_loop_frame [OF l, of out w] have "trace w = trace w4" by simp
    with e4 show ?thesis by simp
  next
    case (Inr w5)
    from wait_loop_frame [OF Inr, of undefined w5] have t5: "trace w5 = trace w4" by simp
    from Inr \<open>enter_running e cf w3 = Inr w4\<close> assms
    have "teardown e cf t w5 = r" by (simp add: supervise_def andthen_def)
    with assms(2) have "\<exists>ys. trace w = trace w5 @ ys"
      by (auto simp: teardown_def andthen_def write_cmd_def issue_def Let_def
          split: if_splits sum.splits)
    with t5 e4 show ?thesis by auto
  qed
qed

lemma main_cases_short [consumes 1, case_names reject startup_fail supervised]:
  assumes "main args e = (out, w)"
  obtains
    st where "resolve args = Inl st" "out = Exit st" "w = initial_world e"
  | cf p name where "resolve args = Inr (cf, p, name)"
      "startup e cf p name (initial_world e) = Inl (out, w)"
  | cf p name t w3 r where "resolve args = Inr (cf, p, name)"
      "startup e cf p name (initial_world e) = Inr (t, w3)"
      "supervise e cf t w3 = r" "r = Inl (out, w) \<or> r = Inr w"
  using assms
  by (auto simp: main_def andthen_def split: sum.splits prod.splits)

lemma main_first_tcsets2:
  assumes "main args e = (out, w)" and "first_tcsets2 (trace w) = Some t"
  shows "\<exists>cf p name. resolve args = Inr (cf, p, name)
           \<and> t = uart_settings (line_config e) (uart_speed cf) (flow_type cf)"
  using assms(1)
proof (cases rule: main_cases_short)
  case (reject st)
  with assms(2) show ?thesis by (simp add: initial_world_def)
next
  case (startup_fail cf p name)
  from startup_Inl_frame [OF startup_fail(2)] assms(2) startup_fail(1)
  show ?thesis by (auto simp: initial_world_def)
next
  case (supervised cf p name t' w3 r)
  from startup_Inr_frame(6) [OF supervised(2)] obtain ys where
    "trace w3 = [Open p, Tcgets2, Tcgets2, Tiocgserial, Tiocsserial,
       Tcsets2 (uart_settings (line_config e) (uart_speed cf) (flow_type cf))] @ ys"
    by (auto simp: initial_world_def)
  moreover from supervise_frame [OF supervised(3,4)] obtain zs where "trace w = trace w3 @ zs"
    by blast
  ultimately have "first_tcsets2 (trace w)
      = Some (uart_settings (line_config e) (uart_speed cf) (flow_type cf))"
    by simp
  with assms(2) supervised(1) show ?thesis by simp
qed

lemmas header_defs = EXIT_SUCCESS_def EXIT_FAILURE_def SIGINT_def SIGUSR1_def SIGALRM_def
  SIGTERM_def SIGCHLD_def SIGCONT_def SIGSTOP_def SIGTSTP_def SIGTTIN_def SIGTTOU_def
  SIGURG_def SIGWINCH_def N_TTY_def N_SLCAN_def IFNAMSIZ_def TTYPATH_LENGTH_def FLOW_NONE_def
  FLOW_HW_def FLOW_SW_def devprefix_def CR_def

lemmas libc_defs = strtol_def isspace_def isdigit_def digit_value_def LONG_MAX_def LONG_MIN_def

lemmas run_defs = main_def resolve_def initial_opts_def make_ttypath_def startup_def
  line_setup_def primer_def write_cmd_def attach_def supervise_def enter_running_def
  deliver_def child_handler_def teardown_def andthen_def issue_def initial_world_def Let_def

lemmas example_defs = example_env_def example_tios_def posix_default_def

lemma example_fg_run: "fst (main example_fg example_env) = Return 143"
  by (simp add: example_fg_def run_defs header_defs example_defs)

lemma example_fg_trace:
  "trace (snd (main example_fg example_env)) =
     [Open ''/dev/ttyUSB0'', Tcgets2, Tcgets2, Tiocgserial, Tiocsserial,
      Tcsets2 (uart_settings example_tios 0 FLOW_NONE),
      Write [CHR ''C'', CR, CHR ''S'', CHR ''6'', CR], Write [CHR ''O'', CR],
      Tiocsetd N_SLCAN, Siocgifname, Socket, Siocsifname ''slcan0'' ''can0'', Close_socket,
      Signal SIGINT, Signal SIGTERM, Tiocsetd N_TTY, Write [CHR ''C'', CR],
      Tcsets2 example_tios]"
  by (simp add: example_fg_def run_defs header_defs example_defs)


lemma example_fg_resolve:
  "resolve example_fg = Inr (initial_opts\<lparr>send_open := True, send_close := True,
      speed := Some ''6'', run_as_daemon := False\<rparr>, ''/dev/ttyUSB0'', Some ''can0'')"
  by (simp add: example_fg_def resolve_def initial_opts_def make_ttypath_def header_defs)

lemma example_fg_startup:
  assumes "\<not> startup_fails e (initial_opts\<lparr>send_open := True, send_close := True,
      speed := Some ''6'', run_as_daemon := False\<rparr>) (Some ''can0'')"
    and "\<not> fails e At_socket" and "line_config e = example_tios" and "ifr_name e = ''slcan0''"
  shows "startup e (initial_opts\<lparr>send_open := True, send_close := True,
          speed := Some ''6'', run_as_daemon := False\<rparr>) ''/dev/ttyUSB0'' (Some ''can0'')
          (initial_world e)
       = Inr (example_tios,
           \<lparr>tty_tios = uart_settings example_tios 0 FLOW_NONE,
            trace = [Open ''/dev/ttyUSB0'', Tcgets2, Tcgets2, Tiocgserial, Tiocsserial,
              Tcsets2 (uart_settings example_tios 0 FLOW_NONE),
              Write [CHR ''C'', CR, CHR ''S'', CHR ''6'', CR], Write [CHR ''O'', CR],
              Tiocsetd N_SLCAN, Siocgifname, Socket, Siocsifname ''slcan0'' ''can0'',
              Close_socket],
            trapped = {}, slcand_running = 0, exit_code = 0\<rparr>)"
  using assms
  by (simp add: startup_fails_def startup_def line_setup_def primer_def write_cmd_def attach_def
      andthen_def issue_def initial_world_def initial_opts_def Let_def IFNAMSIZ_def FLOW_NONE_def)


lemma posix_default_examples:
  "posix_default SIGWINCH = Ignore" "posix_default SIGCHLD = Ignore"
  "posix_default SIGALRM = Terminate" "posix_default SIGTERM = Terminate"
  "posix_default SIGINT = Terminate" "posix_default SIGUSR1 = Terminate"
  by (simp_all add: posix_default_def header_defs)



lemma teardown_result:
  "teardown e cf t w =
     (if fails e At_tiocsetd_tty
      then Inl (Exit EXIT_FAILURE, w\<lparr>trace := trace w @ [Tiocsetd N_TTY]\<rparr>)
      else if send_close cf \<and> fails e At_write_close
      then Inl (Exit EXIT_FAILURE, w\<lparr>trace := trace w @ [Tiocsetd N_TTY, Write (''C'' @ [CR])]\<rparr>)
      else if fails e At_tcsets2_old
      then Inl (Exit EXIT_FAILURE, w\<lparr>trace := trace w @ Tiocsetd N_TTY #
             (if send_close cf then [Write (''C'' @ [CR])] else []) @ [Tcsets2 t]\<rparr>)
      else Inr (w\<lparr>trace := trace w @ Tiocsetd N_TTY #
             (if send_close cf then [Write (''C'' @ [CR])] else []) @ [Tcsets2 t],
             tty_tios := t\<rparr>))"
  by (simp add: teardown_def andthen_def write_cmd_def issue_def Let_def)

lemma main_handled_signal:
  assumes "resolve args = Inr (cf, p, name)" and "\<not> run_as_daemon cf"
    and "startup e cf p name (initial_world e) = Inr (t, w3)"
    and "signals e = pre @ s # ss"
    and "\<forall>x\<in>set pre. x \<noteq> SIGINT \<and> x \<noteq> SIGTERM \<and> sig_default e x = Ignore"
    and "s = SIGINT \<or> s = SIGTERM"
  shows "main args e =
     (case teardown e cf t
        (w3\<lparr>trace := trace w3 @ [Signal SIGINT, Signal SIGTERM],
            trapped := {SIGTERM, SIGINT}, slcand_running := 0, exit_code := 128 + s\<rparr>) of
        Inl x \<Rightarrow> x | Inr w \<Rightarrow> (Return (exit_code w), w))"
proof -
  define w4 where "w4 = w3\<lparr>trace := trace w3 @ [Signal SIGINT, Signal SIGTERM],
      trapped := {SIGTERM, SIGINT}\<rparr>"
  have t3: "trapped w3 = {}"
    using startup_Inr_frame(2) [OF assms(3)] by (simp add: initial_world_def)
  have en: "enter_running e cf w3 = Inr w4"
    using assms(2) t3 by (simp add: enter_running_def w4_def Let_def issue_def)
  let ?w = "w4\<lparr>slcand_running := 1\<rparr>"
  have "wait_loop e (pre @ s # ss) ?w = Inr (?w\<lparr>exit_code := 128 + s, slcand_running := 0\<rparr>)"
  proof (rule wait_loop_signal)
    show "slcand_running ?w \<noteq> 0" by simp
    show "\<forall>x\<in>set pre. x \<notin> trapped ?w \<and> sig_default e x = Ignore"
      using assms(5) by (auto simp: w4_def)
    show "s \<in> trapped ?w" using assms(6) by (auto simp: w4_def)
    show "s = SIGINT \<or> s = SIGTERM \<or> s = SIGALRM \<or> s = SIGCHLD" using assms(6) by auto
  qed
  then have wl: "wait_loop e (signals e) ?w
      = Inr (w3\<lparr>trace := trace w3 @ [Signal SIGINT, Signal SIGTERM],
            trapped := {SIGTERM, SIGINT}, slcand_running := 0, exit_code := 128 + s\<rparr>)"
    by (simp add: assms(4) w4_def)
  show ?thesis
    using assms(1,3) en wl by (simp add: main_def supervise_def andthen_def)
qed

lemma uart_settings_keeps_ixon:
  assumes "flow \<noteq> FLOW_SW"
  shows "c_iflag (uart_settings t b flow) AND IXON = c_iflag t AND IXON"
proof -
  have "NOT IXOFF AND IXON = IXON" by (simp add: IXOFF_def IXON_def)
  then have "(x AND NOT IXOFF) AND IXON = x AND IXON" for x
    by (simp add: and.assoc)
  with assms show ?thesis by (simp add: uart_settings_def Let_def)
qed

lemma uart_settings_flow_bits:
  "c_cflag (uart_settings t b f) AND CRTSCTS = (if f = FLOW_HW then CRTSCTS else 0)"
  "c_iflag (uart_settings t b f) AND IXOFF = (if f = FLOW_SW then IXOFF else 0)"
  "c_iflag (uart_settings t b f) AND IXON = (if f = FLOW_SW then IXON else c_iflag t AND IXON)"
proof -
  have h: "NOT CRTSCTS AND (NOT CBAUD AND CRTSCTS) = 0" "BOTHER AND CRTSCTS = 0"
    by (simp_all add: CRTSCTS_def CBAUD_def BOTHER_def)
  have a: "((x AND NOT CRTSCTS) AND NOT CBAUD) AND CRTSCTS = 0" for x
    using h(1) by (simp add: and.assoc)
  have b: "NOT IXOFF AND IXON = IXON" "IXON AND IXOFF = 0" "FLOW_HW \<noteq> FLOW_SW"
    by (simp_all add: IXOFF_def IXON_def FLOW_HW_def FLOW_SW_def)
  have c: "(x AND NOT IXOFF) AND IXON = x AND IXON" for x
    using b(1) by (simp add: and.assoc)
  show "c_cflag (uart_settings t b f) AND CRTSCTS = (if f = FLOW_HW then CRTSCTS else 0)"
    by (simp add: uart_settings_def Let_def bit.conj_disj_distrib2 a h(2))
  show "c_iflag (uart_settings t b f) AND IXOFF = (if f = FLOW_SW then IXOFF else 0)"
    using b by (simp add: uart_settings_def Let_def bit.conj_disj_distrib2 mask_cleared)
  show "c_iflag (uart_settings t b f) AND IXON = (if f = FLOW_SW then IXON else c_iflag t AND IXON)"
    using b by (simp add: uart_settings_def Let_def bit.conj_disj_distrib2 c)
qed

lemma handle_opt_invalid: "invalid_opt x \<Longrightarrow> handle_opt x cf = Inl EXIT_FAILURE"
  by (cases x) (auto simp: Let_def)

lemma parse_options_invalid:
  "\<exists>x\<in>set xs. invalid_opt x \<Longrightarrow> parse_options xs cf = Inl EXIT_FAILURE"
proof (induction xs arbitrary: cf)
  case Nil
  then show ?case by simp
next
  case (Cons x xs)
  show ?case
  proof (cases "handle_opt x cf")
    case (Inl st)
    with handle_opt_Inl [OF Inl] show ?thesis by simp
  next
    case (Inr cf')
    with handle_opt_invalid [of x cf] have "\<not> invalid_opt x" by auto
    with Cons.prems have "\<exists>x\<in>set xs. invalid_opt x" by simp
    from Cons.IH [OF this] Inr show ?thesis by simp
  qed
qed

lemma invalid_input_rejected_before_open:
  assumes "(\<exists>x\<in>set (options args). invalid_opt x)
         \<or> (\<exists>tty n rest. operands args = tty # n # rest \<and> IFNAMSIZ - 1 < length n)"
  shows "main args e = (Exit EXIT_FAILURE, initial_world e)"
    and "trace (snd (main args e)) = []"
proof -
  from assms have "resolve args = Inl EXIT_FAILURE"
  proof
    assume "\<exists>x\<in>set (options args). invalid_opt x"
    from parse_options_invalid [OF this] show ?thesis by (simp add: resolve_def)
  next
    assume "\<exists>tty n rest. operands args = tty # n # rest \<and> IFNAMSIZ - 1 < length n"
    then obtain tty n rest where "operands args = tty # n # rest" "IFNAMSIZ - 1 < length n"
      by blast
    then show ?thesis
      by (auto simp: resolve_def Let_def split: sum.splits dest: parse_options_Inl)
  qed
  then show "main args e = (Exit EXIT_FAILURE, initial_world e)" by (simp add: main_def)
  then show "trace (snd (main args e)) = []" by (simp add: initial_world_def)
qed

lemma unwrapped_baud_rejected:
  assumes "6000000 < v" and "v < 2 ^ 32"
  shows "6000000 < (word_of_int v :: 32 word)"
proof -
  from assms have "uint (word_of_int v :: 32 word) = v"
    by (simp add: uint_word_of_int take_bit_eq_mod)
  with assms(1) show ?thesis by (simp add: word_less_def)
qed

lemma make_ttypath_examples:
  "make_ttypath ''ttyUSB0'' = ''/dev/ttyUSB0''" "make_ttypath ''/dev/ttyUSB0'' = ''/dev/ttyUSB0''"
  by (simp_all add: make_ttypath_def header_defs)

lemma handle_opt_lengths:
  assumes "handle_opt x cf = Inr cf'"
    and "\<forall>s. speed cf = Some s \<longrightarrow> length s \<le> 1" and "\<forall>b. btr cf = Some b \<longrightarrow> length b \<le> 8"
  shows "(\<forall>s. speed cf' = Some s \<longrightarrow> length s \<le> 1) \<and> (\<forall>b. btr cf' = Some b \<longrightarrow> length b \<le> 8)"
  using assms by (cases x) (auto simp: Let_def split: if_splits)

lemma parse_options_lengths:
  assumes "parse_options xs cf = Inr cf'"
    and "\<forall>s. speed cf = Some s \<longrightarrow> length s \<le> 1" and "\<forall>b. btr cf = Some b \<longrightarrow> length b \<le> 8"
  shows "(\<forall>s. speed cf' = Some s \<longrightarrow> length s \<le> 1) \<and> (\<forall>b. btr cf' = Some b \<longrightarrow> length b \<le> 8)"
  using assms
proof (induction xs arbitrary: cf)
  case Nil
  then show ?case by simp
next
  case (Cons x xs)
  from Cons.prems(1) obtain cf1 where h: "handle_opt x cf = Inr cf1"
    and p: "parse_options xs cf1 = Inr cf'"
    by (auto split: sum.splits)
  from handle_opt_lengths [OF h Cons.prems(2,3)] Cons.IH [OF p] show ?case by blast
qed

section \<open>Teardown and the original line settings\<close>

text \<open>
  Claim C1, as amended. On the exit path through the final \<open>return\<close> of \<open>main\<close>
  (the wait loop was ended by a handled signal, and the reset of the line
  discipline, the close command when one was asked for, and the last \<open>TCSETS2\<close>
  went through) the run opens the device, reads its configuration twice before
  any other call, and its last call hands the device the configuration it held
  when the program started; the device holds that configuration again.
\<close>

theorem teardown_restores_snapshot:
  assumes "main args e = (Return n, w)"
  shows "tty_tios w = line_config e
       \<and> (\<exists>p ys. trace w = Open p # Tcgets2 # Tcgets2 # ys @ [Tcsets2 (line_config e)])"
proof -
  from assms obtain cf p name w3 w4 w5 where
    s: "startup e cf p name (initial_world e) = Inr (line_config e, w3)"
    and en: "enter_running e cf w3 = Inr w4"
    and wl: "wait_loop e (signals e) (w4\<lparr>slcand_running := 1\<rparr>) = Inr w5"
    and td: "teardown e cf (line_config e) w5 = Inr w"
    by (rule main_Return)
  from startup_Inr_frame(6) [OF s] obtain ys where
    "trace w3 = Open p # Tcgets2 # Tcgets2 # Tiocgserial # Tiocsserial #
       Tcsets2 (uart_settings (line_config e) (uart_speed cf) (flow_type cf)) # ys"
    by (auto simp: initial_world_def)
  moreover from enter_running_frame(1) [OF en, of undefined w4] obtain zs where
    "trace w4 = trace w3 @ zs" by auto
  moreover from wait_loop_frame [OF wl, of undefined w5] have "trace w5 = trace w4" by simp
  moreover note teardown_Inr(4) [OF td]
  ultimately have "\<exists>ys. trace w = Open p # Tcgets2 # Tcgets2 # ys @ [Tcsets2 (line_config e)]"
    by simp
  with teardown_Inr(1) [OF td] show ?thesis by blast
qed

theorem teardown_restores_snapshot_witness:
  "fst (main example_fg example_env) = Return 143
   \<and> tty_tios (snd (main example_fg example_env)) = line_config example_env
   \<and> (\<exists>p ys. trace (snd (main example_fg example_env))
         = Open p # Tcgets2 # Tcgets2 # ys @ [Tcsets2 (line_config example_env)])"
proof -
  have h: "main example_fg example_env = (Return 143, snd (main example_fg example_env))"
    using example_fg_run by (simp add: prod_eq_iff)
  from teardown_restores_snapshot [OF h] example_fg_run show ?thesis by simp
qed

text \<open>
  The claim as stated fails for a fatal error after the open: when the \<open>write\<close> of
  the open command fails, the run ends with \<open>exit(EXIT_FAILURE)\<close> right after that
  \<open>write\<close>, the device keeps the new settings (speed 0 instead of 38400), and
  \<open>TCSETS2\<close> is never called with the original ones.
\<close>

theorem write_failure_leaves_new_settings:
  "fst (main example_fg (example_env\<lparr>fails := (\<lambda>s. s = At_write_open)\<rparr>)) = Exit EXIT_FAILURE
   \<and> trace (snd (main example_fg (example_env\<lparr>fails := (\<lambda>s. s = At_write_open)\<rparr>))) =
       [Open ''/dev/ttyUSB0'', Tcgets2, Tcgets2, Tiocgserial, Tiocsserial,
        Tcsets2 (uart_settings example_tios 0 FLOW_NONE),
        Write [CHR ''C'', CR, CHR ''S'', CHR ''6'', CR], Write [CHR ''O'', CR]]
   \<and> tty_tios (snd (main example_fg (example_env\<lparr>fails := (\<lambda>s. s = At_write_open)\<rparr>)))
       \<noteq> line_config (example_env\<lparr>fails := (\<lambda>s. s = At_write_open)\<rparr>)
   \<and> c_ispeed (tty_tios (snd (main example_fg (example_env\<lparr>fails := (\<lambda>s. s = At_write_open)\<rparr>)))) = 0
   \<and> c_ispeed (line_config (example_env\<lparr>fails := (\<lambda>s. s = At_write_open)\<rparr>)) = 38400"
  by (simp add: example_fg_def run_defs header_defs example_defs uart_settings_def)

section \<open>The protocol primer\<close>

text \<open>
  Claim C2. For every combination of options that passes the option loop, and when
  no \<open>write\<close> fails, the primer issues only \<open>write\<close> calls, and the bytes they
  carry are, in this order, \<open>C\<close> CR \<open>S\<close> code CR when a speed was given, \<open>C\<close> CR \<open>s\<close>
  btr CR when a bit timing was given, \<open>F\<close> CR when the status flags were asked for,
  then \<open>L\<close> CR when listen-only was asked for, otherwise \<open>O\<close> CR when open was asked
  for; nothing else is written. Each command, with its terminator, fits the
  \<open>buf\<close> of 20 characters it is formatted into.
\<close>

theorem primer_writes_commands:
  assumes "parse_options xs initial_opts = Inr cf" and "\<forall>s. \<not> fails e s"
  shows "\<exists>bufs. primer e cf w = Inr (w\<lparr>trace := trace w @ map Write bufs\<rparr>)
           \<and> concat bufs = spec_primer_commands cf \<and> (\<forall>b\<in>set bufs. length b < 20)"
proof -
  let ?bufs = "(case speed cf of None \<Rightarrow> [] | Some s \<Rightarrow> [''C'' @ [CR] @ ''S'' @ s @ [CR]]) @
     (case btr cf of None \<Rightarrow> [] | Some b \<Rightarrow> [''C'' @ [CR] @ ''s'' @ b @ [CR]]) @
     (if send_read_status_flags cf then [''F'' @ [CR]] else []) @
     (if send_listen cf then [''L'' @ [CR]] else if send_open cf then [''O'' @ [CR]] else [])"
  from assms(2) have "primer e cf w = Inr (w\<lparr>trace := trace w @ map Write ?bufs\<rparr>)"
    by (simp add: primer_def andthen_def write_cmd_def issue_def Let_def split: option.splits)
  moreover have "concat ?bufs = spec_primer_commands cf"
    by (simp add: spec_primer_commands_def split: option.splits)
  moreover from parse_options_lengths [OF assms(1)]
  have "(\<forall>s. speed cf = Some s \<longrightarrow> length s \<le> 1) \<and> (\<forall>b. btr cf = Some b \<longrightarrow> length b \<le> 8)"
    by (simp add: initial_opts_def)
  then have "\<forall>b\<in>set ?bufs. length b < 20"
    by (cases "speed cf"; cases "btr cf"; auto)
  ultimately show ?thesis by blast
qed

lemma main_example_o_l:
  "parse_options [Opt_s ''6'', Opt_b ''1C'', Opt_f, Opt_o, Opt_l] initial_opts
     = Inr (initial_opts\<lparr>send_open := True, send_listen := True, send_read_status_flags := True,
         speed := Some ''6'', btr := Some ''1C''\<rparr>)"
  by (simp add: initial_opts_def)

theorem primer_writes_commands_witness:
  "\<exists>bufs. primer example_env
       (initial_opts\<lparr>send_open := True, send_listen := True, send_read_status_flags := True,
          speed := Some ''6'', btr := Some ''1C''\<rparr>) (initial_world example_env)
       = Inr ((initial_world example_env)\<lparr>trace := trace (initial_world example_env) @ map Write bufs\<rparr>)
     \<and> concat bufs = [CHR ''C'', CR, CHR ''S'', CHR ''6'', CR, CHR ''C'', CR, CHR ''s'',
          CHR ''1'', CHR ''C'', CR, CHR ''F'', CR, CHR ''L'', CR]"
proof -
  have f: "\<forall>s. \<not> fails example_env s" by (simp add: example_env_def)
  from primer_writes_commands [OF main_example_o_l f, of "initial_world example_env"]
  show ?thesis by (auto simp add: spec_primer_commands_def initial_opts_def)
qed

section \<open>The exit status\<close>



section \<open>Signals in the foreground\<close>

text \<open>
  Claim C4, as amended. In foreground mode, once the start-up has gone through,
  the receipt of \<open>SIGINT\<close> or \<open>SIGTERM\<close> in the wait loop (after any number of
  signals that have no handler and are ignored) clears the running flag and sets
  the exit status to 128 plus the signal number, and the teardown then runs.
  The calls of the run after the start-up are exactly the two installations of
  the handler and the teardown: the reset of the line discipline, the close
  command when one was asked for, and \<open>TCSETS2\<close> with the configuration the device
  held at the start, up to the first of them that fails. When none fails the run
  returns 128 plus the signal number and the device holds its original
  configuration; otherwise it ends with \<open>EXIT_FAILURE\<close>.
\<close>

theorem handled_signal_starts_teardown:
  assumes "resolve args = Inr (cf, p, name)" and "\<not> run_as_daemon cf"
    and "startup e cf p name (initial_world e) = Inr (t, w3)"
    and "signals e = pre @ s # ss"
    and "\<forall>x\<in>set pre. x \<noteq> SIGINT \<and> x \<noteq> SIGTERM \<and> sig_default e x = Ignore"
    and "s = SIGINT \<or> s = SIGTERM"
  shows "slcand_running (snd (main args e)) = 0
       \<and> exit_code (snd (main args e)) = 128 + s
       \<and> trace (snd (main args e)) =
           trace w3 @ [Signal SIGINT, Signal SIGTERM, Tiocsetd N_TTY] @
           (if fails e At_tiocsetd_tty then []
            else (if send_close cf then [Write (''C'' @ [CR])] else []) @
                 (if send_close cf \<and> fails e At_write_close then []
                  else [Tcsets2 (line_config e)]))
       \<and> fst (main args e) = (if teardown_fails e cf then Exit EXIT_FAILURE else Return (128 + s))
       \<and> (\<not> teardown_fails e cf \<longrightarrow> tty_tios (snd (main args e)) = line_config e)"
proof -
  have t: "t = line_config e"
    using startup_Inr_frame(1) [OF assms(3)] by (simp add: initial_world_def)
  show ?thesis
    unfolding main_handled_signal [OF assms] teardown_result t
    by (simp add: teardown_fails_def)
qed

theorem handled_signal_starts_teardown_witness:
  "slcand_running (snd (main example_fg (example_env\<lparr>signals := [SIGCHLD, SIGINT]\<rparr>))) = 0
   \<and> exit_code (snd (main example_fg (example_env\<lparr>signals := [SIGCHLD, SIGINT]\<rparr>))) = 130
   \<and> trace (snd (main example_fg (example_env\<lparr>signals := [SIGCHLD, SIGINT]\<rparr>))) =
       [Open ''/dev/ttyUSB0'', Tcgets2, Tcgets2, Tiocgserial, Tiocsserial,
        Tcsets2 (uart_settings example_tios 0 FLOW_NONE),
        Write [CHR ''C'', CR, CHR ''S'', CHR ''6'', CR], Write [CHR ''O'', CR],
        Tiocsetd N_SLCAN, Siocgifname, Socket, Siocsifname ''slcan0'' ''can0'', Close_socket,
        Signal SIGINT, Signal SIGTERM, Tiocsetd N_TTY, Write [CHR ''C'', CR],
        Tcsets2 example_tios]
   \<and> fst (main example_fg (example_env\<lparr>signals := [SIGCHLD, SIGINT]\<rparr>)) = Return 130
   \<and> tty_tios (snd (main example_fg (example_env\<lparr>signals := [SIGCHLD, SIGINT]\<rparr>))) = example_tios
   \<and> fst (main example_fg (example_env\<lparr>signals := [SIGCHLD, SIGINT],
        fails := (\<lambda>s. s = At_write_close)\<rparr>)) = Exit EXIT_FAILURE
   \<and> trace (snd (main example_fg (example_env\<lparr>signals := [SIGCHLD, SIGINT],
        fails := (\<lambda>s. s = At_write_close)\<rparr>))) =
       [Open ''/dev/ttyUSB0'', Tcgets2, Tcgets2, Tiocgserial, Tiocsserial,
        Tcsets2 (uart_settings example_tios 0 FLOW_NONE),
        Write [CHR ''C'', CR, CHR ''S'', CHR ''6'', CR], Write [CHR ''O'', CR],
        Tiocsetd N_SLCAN, Siocgifname, Socket, Siocsifname ''slcan0'' ''can0'', Close_socket,
        Signal SIGINT, Signal SIGTERM, Tiocsetd N_TTY, Write [CHR ''C'', CR]]"
proof -
  let ?cf = "initial_opts\<lparr>send_open := True, send_close := True,
          speed := Some ''6'', run_as_daemon := False\<rparr>"
  let ?e = "example_env\<lparr>signals := [SIGCHLD, SIGINT]\<rparr>"
  let ?f = "example_env\<lparr>signals := [SIGCHLD, SIGINT], fails := (\<lambda>s. s = At_write_close)\<rparr>"
  have d: "\<not> run_as_daemon ?cf" by simp
  have se: "startup ?e ?cf ''/dev/ttyUSB0'' (Some ''can0'') (initial_world ?e) = Inr (example_tios,
           \<lparr>tty_tios = uart_settings example_tios 0 FLOW_NONE,
            trace = [Open ''/dev/ttyUSB0'', Tcgets2, Tcgets2, Tiocgserial, Tiocsserial,
              Tcsets2 (uart_settings example_tios 0 FLOW_NONE),
              Write [CHR ''C'', CR, CHR ''S'', CHR ''6'', CR], Write [CHR ''O'', CR],
              Tiocsetd N_SLCAN, Siocgifname, Socket, Siocsifname ''slcan0'' ''can0'',
              Close_socket],
            trapped = {}, slcand_running = 0, exit_code = 0\<rparr>)"
    by (rule example_fg_startup) (simp_all add: startup_fails_def example_env_def)
  have sf: "startup ?f ?cf ''/dev/ttyUSB0'' (Some ''can0'') (initial_world ?f) = Inr (example_tios,
           \<lparr>tty_tios = uart_settings example_tios 0 FLOW_NONE,
            trace = [Open ''/dev/ttyUSB0'', Tcgets2, Tcgets2, Tiocgserial, Tiocsserial,
              Tcsets2 (uart_settings example_tios 0 FLOW_NONE),
              Write [CHR ''C'', CR, CHR ''S'', CHR ''6'', CR], Write [CHR ''O'', CR],
              Tiocsetd N_SLCAN, Siocgifname, Socket, Siocsifname ''slcan0'' ''can0'',
              Close_socket],
            trapped = {}, slcand_running = 0, exit_code = 0\<rparr>)"
    by (rule example_fg_startup) (simp_all add: startup_fails_def example_env_def)
  have sg: "signals ?e = [SIGCHLD] @ SIGINT # []" "signals ?f = [SIGCHLD] @ SIGINT # []"
    by simp_all
  have ig: "\<forall>x\<in>set [SIGCHLD]. x \<noteq> SIGINT \<and> x \<noteq> SIGTERM \<and> sig_default ?e x = Ignore"
    "\<forall>x\<in>set [SIGCHLD]. x \<noteq> SIGINT \<and> x \<noteq> SIGTERM \<and> sig_default ?f x = Ignore"
    by (simp_all add: example_defs header_defs)
  from handled_signal_starts_teardown [OF example_fg_resolve d se sg(1) ig(1)]
    handled_signal_starts_teardown [OF example_fg_resolve d sf sg(2) ig(2)]
  show ?thesis
    by (simp add: teardown_fails_def example_env_def SIGINT_def CR_def)
qed

text \<open>
  The claim as stated names \<open>SIGALRM\<close> and \<open>SIGCHLD\<close> as well. \<open>main\<close> installs the
  handler for \<open>SIGINT\<close> and \<open>SIGTERM\<close> only (lines 359 and 360), so the other two
  meet the default disposition: \<open>SIGALRM\<close> kills the process with the flag still
  set, the status still 0 and no call of the teardown; \<open>SIGCHLD\<close> is ignored and
  the loop goes on.
\<close>

theorem unhandled_signals_skip_teardown:
  "fst (main example_fg (example_env\<lparr>signals := [SIGALRM]\<rparr>)) = Killed SIGALRM
   \<and> slcand_running (snd (main example_fg (example_env\<lparr>signals := [SIGALRM]\<rparr>))) = 1
   \<and> exit_code (snd (main example_fg (example_env\<lparr>signals := [SIGALRM]\<rparr>))) = 0
   \<and> Tiocsetd N_TTY \<notin> set (trace (snd (main example_fg (example_env\<lparr>signals := [SIGALRM]\<rparr>))))
   \<and> fst (main example_fg (example_env\<lparr>signals := [SIGCHLD]\<rparr>)) = Never
   \<and> slcand_running (snd (main example_fg (example_env\<lparr>signals := [SIGCHLD]\<rparr>))) = 1
   \<and> Tiocsetd N_TTY \<notin> set (trace (snd (main example_fg (example_env\<lparr>signals := [SIGCHLD]\<rparr>))))"
  by (simp add: example_fg_def run_defs header_defs example_defs)

section \<open>Flow control in the line setup\<close>

text \<open>
  Claim C5 fails on the code. Lines 255 and 256 clear \<open>IXOFF\<close> and \<open>CRTSCTS\<close>;
  \<open>IXON\<close>, which line 268 sets together with \<open>IXOFF\<close> for software flow control, is
  never cleared. On a line that has \<open>IXON\<close> set, as Linux sets it up, the
  configuration handed to the device keeps \<open>IXON\<close> when no flow control was asked
  for, and has both \<open>CRTSCTS\<close> and \<open>IXON\<close> when hardware flow control was asked
  for.
\<close>

theorem ixon_survives_line_setup:
  "first_tcsets2 (trace (snd (main \<lparr>options = [Opt_F], operands = [''ttyUSB0'']\<rparr> example_env)))
     = Some (uart_settings example_tios 0 FLOW_NONE)
   \<and> c_iflag example_tios AND IXON = IXON
   \<and> c_iflag (uart_settings example_tios 0 FLOW_NONE) AND IXON = IXON
   \<and> first_tcsets2 (trace (snd (main \<lparr>options = [Opt_t ''hw'', Opt_F], operands = [''ttyUSB0'']\<rparr>
        example_env)))
     = Some (uart_settings example_tios 0 FLOW_HW)
   \<and> c_iflag (uart_settings example_tios 0 FLOW_HW) AND IXON = IXON
   \<and> c_cflag (uart_settings example_tios 0 FLOW_HW) AND CRTSCTS = CRTSCTS"
  by (simp add: run_defs header_defs example_defs uart_settings_def IXON_def IXOFF_def
      CRTSCTS_def CBAUD_def BOTHER_def)

section \<open>Rejection of invalid input\<close>

text \<open>
  Claim C6 fails on the code for one kind of input. The \<open>long\<close> that \<open>strtol\<close>
  returns is stored in an \<open>unsigned int\<close> before it is compared with 6000000, so
  a baud of \<open>2 ^ 32\<close> becomes 0, passes the check, and the device is opened and
  configured. (The other invalid inputs, and every baud between 6000001 and
  \<open>2 ^ 32 - 1\<close>, are rejected before any call: \<open>invalid_input_rejected_before_open\<close>
  and \<open>unwrapped_baud_rejected\<close>.)
\<close>

theorem wrapped_baud_is_accepted:
  "strtol ''4294967296'' = (4294967296, False)
   \<and> resolve \<lparr>options = [Opt_S ''4294967296''], operands = [''ttyUSB0'']\<rparr>
       = Inr (initial_opts\<lparr>uart_speed := 0\<rparr>, ''/dev/ttyUSB0'', None)
   \<and> take 6 (trace (snd (main \<lparr>options = [Opt_S ''4294967296''], operands = [''ttyUSB0'']\<rparr>
        example_env)))
     = [Open ''/dev/ttyUSB0'', Tcgets2, Tcgets2, Tiocgserial, Tiocsserial,
        Tcsets2 (uart_settings example_tios 0 FLOW_NONE)]"
proof -
  have z: "(4294967296 :: 32 word) = 0" by simp
  show ?thesis
    by (simp add: run_defs header_defs example_defs libc_defs z)
qed

section \<open>Failures of the discipline attach and of the rename\<close>

text \<open>
  Claim C7, as amended. When the attach of the line discipline fails, or the query
  of the interface name fails, or a rename was asked for, its socket could be
  opened and the rename request fails, the run ends with \<open>exit(EXIT_FAILURE)\<close> and
  neither \<open>daemon\<close> nor \<open>signal\<close> has been called: the run supervisor is not
  entered.
\<close>

theorem attach_failures_are_fatal:
  assumes "main args e = (out, w)"
    and "fails e At_tiocsetd_slcan \<or> fails e At_siocgifname
         \<or> (1 < length (operands args) \<and> \<not> fails e At_socket \<and> fails e At_siocsifname)"
  shows "out = Exit EXIT_FAILURE \<and> \<not> list_ex supervisor_call (trace w)"
  using assms(1)
proof (cases rule: main_cases_short)
  case (reject st)
  with resolve_Inl [of args st] show ?thesis by (simp add: initial_world_def)
next
  case (startup_fail cf p name)
  from startup_Inl_frame [OF startup_fail(2)] show ?thesis
    by (auto simp: initial_world_def)
next
  case (supervised cf p name t w3 r)
  from supervised(2) obtain w1 w2 where "attach e name w2 = Inr w3" by (rule startup_Inr)
  from attach_Inr [OF this] resolve_Inr(2) [OF supervised(1)] assms(2)
  show ?thesis by auto
qed

theorem attach_failures_are_fatal_witness:
  "main example_fg (example_env\<lparr>fails := (\<lambda>s. s = At_siocsifname)\<rparr>)
     = (Exit EXIT_FAILURE, snd (main example_fg (example_env\<lparr>fails := (\<lambda>s. s = At_siocsifname)\<rparr>)))
   \<and> \<not> list_ex supervisor_call
         (trace (snd (main example_fg (example_env\<lparr>fails := (\<lambda>s. s = At_siocsifname)\<rparr>))))
   \<and> last (trace (snd (main example_fg (example_env\<lparr>fails := (\<lambda>s. s = At_siocsifname)\<rparr>))))
       = Siocsifname ''slcan0'' ''can0''"
proof -
  let ?e = "example_env\<lparr>fails := (\<lambda>s. s = At_siocsifname)\<rparr>"
  have m: "main example_fg ?e = (fst (main example_fg ?e), snd (main example_fg ?e))" by simp
  have f: "fails ?e At_tiocsetd_slcan \<or> fails ?e At_siocgifname
         \<or> (1 < length (operands example_fg) \<and> \<not> fails ?e At_socket \<and> fails ?e At_siocsifname)"
    by (simp add: example_fg_def)
  have l: "last (trace (snd (main example_fg ?e))) = Siocsifname ''slcan0'' ''can0''"
    by (simp add: example_fg_def run_defs header_defs example_defs)
  from attach_failures_are_fatal [OF m f] l show ?thesis by (simp add: prod_eq_iff)
qed

text \<open>
  The claim as stated makes every step of a rename fatal. The first step, opening
  the socket, is not: when it fails the rename is skipped (line 334 only reports),
  the supervisor is entered and the run ends like any other.
\<close>

theorem socket_failure_is_not_fatal:
  "fst (main example_fg (example_env\<lparr>fails := (\<lambda>s. s = At_socket)\<rparr>)) = Return 143
   \<and> trace (snd (main example_fg (example_env\<lparr>fails := (\<lambda>s. s = At_socket)\<rparr>))) =
     [Open ''/dev/ttyUSB0'', Tcgets2, Tcgets2, Tiocgserial, Tiocsserial,
      Tcsets2 (uart_settings example_tios 0 FLOW_NONE),
      Write [CHR ''C'', CR, CHR ''S'', CHR ''6'', CR], Write [CHR ''O'', CR],
      Tiocsetd N_SLCAN, Siocgifname, Socket,
      Signal SIGINT, Signal SIGTERM, Tiocsetd N_TTY, Write [CHR ''C'', CR],
      Tcsets2 example_tios]"
  by (simp add: example_fg_def run_defs header_defs example_defs)

section \<open>The speed argument\<close>

text \<open>
  Claim C8. A speed argument of one character is accepted by the option loop
  whatever the character is, and when no call fails the run for that argument
  alone writes to the device exactly \<open>C\<close> CR \<open>S\<close>, the character, CR.
\<close>

theorem one_char_speed_accepted:
  assumes "\<forall>s. \<not> fails e s"
  shows "handle_opt (Opt_s [c]) cf = Inr (cf\<lparr>speed := Some [c]\<rparr>)
       \<and> resolve \<lparr>options = [Opt_s [c]], operands = [tty]\<rparr>
           = Inr (initial_opts\<lparr>speed := Some [c]\<rparr>, make_ttypath tty, None)
       \<and> written (trace (snd (main \<lparr>options = [Opt_s [c]], operands = [tty]\<rparr> e)))
           = [CHR ''C'', CR, CHR ''S'', c, CR]"
proof -
  let ?args = "\<lparr>options = [Opt_s [c]], operands = [tty]\<rparr>"
  let ?cf = "initial_opts\<lparr>speed := Some [c]\<rparr>"
  have r: "resolve ?args = Inr (?cf, make_ttypath tty, None)"
    by (simp add: resolve_def)
  have "\<exists>w3. startup e ?cf (make_ttypath tty) None (initial_world e) = Inr (line_config e, w3)
          \<and> written (trace w3) = [CHR ''C'', CR, CHR ''S'', c, CR]"
    using assms
    by (simp add: startup_def line_setup_def primer_def write_cmd_def attach_def andthen_def
        issue_def initial_world_def initial_opts_def Let_def)
  then obtain w3 where s: "startup e ?cf (make_ttypath tty) None (initial_world e)
          = Inr (line_config e, w3)"
    and w3: "written (trace w3) = [CHR ''C'', CR, CHR ''S'', c, CR]" by blast
  have en: "enter_running e ?cf w3 = Inr (issue Daemon w3)"
    using assms by (simp add: enter_running_def initial_opts_def Let_def)
  let ?w4 = "(issue Daemon w3)\<lparr>slcand_running := 1\<rparr>"
  have w4: "written (trace ?w4) = [CHR ''C'', CR, CHR ''S'', c, CR]"
    using w3 by (simp add: issue_def written_append)
  have "written (trace (snd (main ?args e))) = [CHR ''C'', CR, CHR ''S'', c, CR]"
  proof (cases "wait_loop e (signals e) ?w4")
    case (Inl x)
    obtain out w where x: "x = (out, w)" by (cases x)
    from wait_loop_frame [OF Inl [unfolded x], of out w] have "trace w = trace ?w4" by simp
    moreover have "main ?args e = (out, w)"
      using r s en Inl x by (simp add: main_def supervise_def andthen_def)
    ultimately show ?thesis using w4 by simp
  next
    case (Inr w5)
    from wait_loop_frame [OF Inr, of undefined w5] have t5: "trace w5 = trace ?w4" by simp
    let ?w = "(issue (Tcsets2 (line_config e)) (issue (Tiocsetd N_TTY) w5))
                \<lparr>tty_tios := line_config e\<rparr>"
    have "teardown e ?cf (line_config e) w5 = Inr ?w"
      using assms by (simp add: teardown_def andthen_def initial_opts_def Let_def)
    then have "main ?args e = (Return (exit_code ?w), ?w)"
      using r s en Inr by (simp add: main_def supervise_def andthen_def)
    then show ?thesis using w4 t5 by (simp add: issue_def written_append)
  qed
  with r show ?thesis by simp
qed

theorem one_char_speed_accepted_witness:
  "(\<forall>s. \<not> fails example_env s)
   \<and> handle_opt (Opt_s ''z'') initial_opts = Inr (initial_opts\<lparr>speed := Some ''z''\<rparr>)
   \<and> resolve \<lparr>options = [Opt_s ''9''], operands = [''ttyUSB0'']\<rparr>
       = Inr (initial_opts\<lparr>speed := Some ''9''\<rparr>, ''/dev/ttyUSB0'', None)
   \<and> written (trace (snd (main \<lparr>options = [Opt_s ''9''], operands = [''ttyUSB0'']\<rparr> example_env)))
       = [CHR ''C'', CR, CHR ''S'', CHR ''9'', CR]"
proof -
  have f: "\<forall>s. \<not> fails example_env s" by (simp add: example_env_def)
  from one_char_speed_accepted [OF f, of "CHR ''z''" initial_opts "''ttyUSB0''"]
    one_char_speed_accepted [OF f, of "CHR ''9''" initial_opts "''ttyUSB0''"] f
  show ?thesis by (simp add: make_ttypath_def header_defs)
qed

section \<open>The default baud rate\<close>

text \<open>
  Claim C9. When the command line has no \<open>-S\<close> option, the configuration that the
  line setup hands to the device selects \<open>BOTHER\<close> in the baud bits and has 0 as
  input and as output speed, whatever the device held before.
\<close>

theorem default_baud_is_zero:
  assumes "\<forall>a. Opt_S a \<notin> set (options args)" and "main args e = (out, w)"
    and "first_tcsets2 (trace w) = Some t"
  shows "c_ispeed t = 0 \<and> c_ospeed t = 0 \<and> c_cflag t AND CBAUD = BOTHER"
proof -
  from main_first_tcsets2 [OF assms(2,3)] obtain cf p name where
    r: "resolve args = Inr (cf, p, name)"
    and t: "t = uart_settings (line_config e) (uart_speed cf) (flow_type cf)" by blast
  from parse_options_uart_speed [OF assms(1) resolve_Inr(1) [OF r]]
  have "uart_speed cf = 0" by (simp add: initial_opts_def)
  with t show ?thesis by (simp add: uart_settings_speed uart_settings_baud_bits)
qed

theorem default_baud_is_zero_witness:
  "(\<forall>a. Opt_S a \<notin> set (options example_fg))
   \<and> first_tcsets2 (trace (snd (main example_fg example_env)))
       = Some (uart_settings example_tios 0 FLOW_NONE)
   \<and> c_ispeed (line_config example_env) = 38400
   \<and> c_ispeed (uart_settings example_tios 0 FLOW_NONE) = 0
   \<and> c_ospeed (uart_settings example_tios 0 FLOW_NONE) = 0
   \<and> c_cflag (uart_settings example_tios 0 FLOW_NONE) AND CBAUD = BOTHER"
proof -
  have n: "\<forall>a. Opt_S a \<notin> set (options example_fg)" by (simp add: example_fg_def)
  have m: "main example_fg example_env
      = (fst (main example_fg example_env), snd (main example_fg example_env))" by simp
  have f: "first_tcsets2 (trace (snd (main example_fg example_env)))
       = Some (uart_settings example_tios 0 FLOW_NONE)"
    by (simp add: example_fg_trace)
  from default_baud_is_zero [OF n m f] n f show ?thesis
    by (simp add: example_defs)
qed

section \<open>The running flag and the status\<close>

text \<open>
  Claim C10. When the wait loop ends while the flag was set, a signal with an
  installed handler, one of the four the handler stops on, was delivered, and the
  handler has set the exit status to 128 plus its number together with clearing
  the flag. So whenever \<open>main\<close> reaches its final \<open>return\<close>, the status returned is
  128 plus the number of \<open>SIGINT\<close> or \<open>SIGTERM\<close>, the signals for which \<open>main\<close>
  installs the handler, and it is never 0.
\<close>

theorem running_flag_cleared_with_status:
  "(slcand_running w0 \<noteq> 0 \<longrightarrow> wait_loop e ss w0 = Inr w1 \<longrightarrow>
      (\<exists>s\<in>set ss. s \<in> trapped w0
         \<and> (s = SIGINT \<or> s = SIGTERM \<or> s = SIGALRM \<or> s = SIGCHLD)
         \<and> exit_code w1 = 128 + s \<and> slcand_running w1 = 0))
   \<and> (main args e = (Return n, w) \<longrightarrow>
        (\<exists>s\<in>set (signals e). (s = SIGINT \<or> s = SIGTERM) \<and> n = 128 + s)
        \<and> n \<noteq> 0 \<and> slcand_running w = 0)"
proof (intro conjI impI)
  assume "slcand_running w0 \<noteq> 0" and "wait_loop e ss w0 = Inr w1"
  then show "\<exists>s\<in>set ss. s \<in> trapped w0
         \<and> (s = SIGINT \<or> s = SIGTERM \<or> s = SIGALRM \<or> s = SIGCHLD)
         \<and> exit_code w1 = 128 + s \<and> slcand_running w1 = 0"
    by (rule wait_loop_Inr)
next
  assume m: "main args e = (Return n, w)"
  from main_Return_signal(1) [OF m]
  show "\<exists>s\<in>set (signals e). (s = SIGINT \<or> s = SIGTERM) \<and> n = 128 + s" .
  then show "n \<noteq> 0" by (auto simp: SIGINT_def SIGTERM_def)
  from main_Return_signal(2) [OF m] show "slcand_running w = 0" .
qed

theorem running_flag_cleared_with_status_witness:
  "slcand_running example_running \<noteq> 0
   \<and> wait_loop example_env [SIGCHLD, SIGINT] example_running
       = Inr (example_running\<lparr>exit_code := 130, slcand_running := 0\<rparr>)
   \<and> (\<exists>s\<in>set [SIGCHLD, SIGINT]. s \<in> trapped example_running
         \<and> (s = SIGINT \<or> s = SIGTERM \<or> s = SIGALRM \<or> s = SIGCHLD)
         \<and> exit_code (example_running\<lparr>exit_code := 130, slcand_running := 0\<rparr>) = 128 + s)
   \<and> main example_fg example_env = (Return 143, snd (main example_fg example_env))
   \<and> (\<exists>s\<in>set (signals example_env). (s = SIGINT \<or> s = SIGTERM) \<and> (143 :: int) = 128 + s)
   \<and> slcand_running (snd (main example_fg example_env)) = 0"
proof -
  have r: "slcand_running example_running \<noteq> 0" by (simp add: example_running_def)
  have l: "wait_loop example_env [SIGCHLD, SIGINT] example_running
       = Inr (example_running\<lparr>exit_code := 130, slcand_running := 0\<rparr>)"
    by (simp add: example_running_def example_defs deliver_def child_handler_def header_defs)
  have h: "main example_fg example_env = (Return 143, snd (main example_fg example_env))"
    using example_fg_run by (simp add: prod_eq_iff)
  from running_flag_cleared_with_status
    [of example_running example_env "[SIGCHLD, SIGINT]"
      "example_running\<lparr>exit_code := 130, slcand_running := 0\<rparr>"
      example_fg 143 "snd (main example_fg example_env)"]
    r l h
  show ?thesis by simp
qed

end
